theory Spec2Isabelle
  imports Main "HOL-Library.Word" "HOL-Library.Sublist"
begin

section \<open>Common types\<close>

text \<open>
  A Go \<open>[]byte\<close> buffer and a Go \<open>string\<close> are both byte sequences. An \<open>error\<close> value is
  \<open>None\<close> for \<open>nil\<close>; the errors the modelled code creates or compares against are the
  constructors below (\<open>sql.ErrNoRows\<close>, the package variable \<open>errNilModel\<close>, the
  \<open>fmt.Errorf("%s does not have relation=%q", q.table, name)\<close> error, which keeps its two
  arguments, and any other error with its message).
\<close>

type_synonym bytes = string

datatype error = ErrNoRows | ErrNilModel | ErrNoRelation string string | Error string

text \<open>A call either returns normally or panics.\<close>

datatype 'a outcome = Panic | Done 'a

section \<open>The PostgreSQL dialect: rendering unsigned integers\<close>

text \<open>
  \<open>strconv.AppendInt(b, i, 10)\<close> of the Go standard library appends the decimal text of the
  signed 64-bit integer \<open>i\<close>: a minus sign for a negative value, then the digits of its
  magnitude, most significant first, with no leading zero.
\<close>

fun digits :: "nat \<Rightarrow> string" where
  "digits n =
     (if n < 10 then [''0123456789'' ! n]
      else digits (n div 10) @ [''0123456789'' ! (n mod 10)])"

declare digits.simps [simp del]

definition formatInt :: "int \<Rightarrow> string" where
  "formatInt i = (if i < 0 then CHR ''-'' # digits (nat (- i)) else digits (nat i))"

definition AppendInt :: "bytes \<Rightarrow> 64 word \<Rightarrow> bytes" where
  "AppendInt b i = b @ formatInt (sint i)"

text \<open>
  \<open>AppendUint32\<close> is \<open>strconv.AppendInt(b, int64(int32(n)), 10)\<close>: \<open>int32(n)\<close> keeps the 32
  bits of \<open>n\<close> and reads them as a signed value, \<open>int64(...)\<close> sign-extends it (\<open>scast\<close>).
  \<open>AppendUint64\<close> is \<open>strconv.AppendInt(b, int64(n), 10)\<close>: the same 64 bits, read signed.
\<close>

definition AppendUint32 :: "bytes \<Rightarrow> 32 word \<Rightarrow> bytes" where
  "AppendUint32 b n = AppendInt b (scast n)"

definition AppendUint64 :: "bytes \<Rightarrow> 64 word \<Rightarrow> bytes" where
  "AppendUint64 b n = AppendInt b n"

section \<open>Model-level hooks over a batch\<close>

text \<open>
  The \<open>reflect.Value\<close> handed to the batch helpers is either the zero Value (\<open>Invalid\<close>) or a
  slice of entities. A hook is a function of the context and one entity; what it does to the
  entity and the world is a state transformer on \<open>'s\<close>, and it returns an error or \<open>nil\<close>.
  \<open>v.Interface().(schema.BeforeInsertHook)\<close> is a type assertion: it panics when the entity
  does not implement the interface, so an entity type comes with a table saying which hook
  methods it has.
\<close>

datatype 'v reflect_Value = Invalid | Slice "'v list"

type_synonym ('c, 'v, 's) hook = "'c \<Rightarrow> 'v \<Rightarrow> 's \<Rightarrow> (error option \<times> 's) outcome"

type_synonym ('c, 's) hook_method = "'c \<Rightarrow> 's \<Rightarrow> error option \<times> 's"

record ('c, 'v, 's) hook_methods =
  BeforeScan :: "'v \<Rightarrow> ('c, 's) hook_method option"
  AfterScan :: "'v \<Rightarrow> ('c, 's) hook_method option"
  AfterSelect :: "'v \<Rightarrow> ('c, 's) hook_method option"
  BeforeInsert :: "'v \<Rightarrow> ('c, 's) hook_method option"
  AfterInsert :: "'v \<Rightarrow> ('c, 's) hook_method option"
  BeforeUpdate :: "'v \<Rightarrow> ('c, 's) hook_method option"
  AfterUpdate :: "'v \<Rightarrow> ('c, 's) hook_method option"
  BeforeDelete :: "'v \<Rightarrow> ('c, 's) hook_method option"
  AfterDelete :: "'v \<Rightarrow> ('c, 's) hook_method option"

text \<open>
  The loop of \<open>callHookSlice\<close> and \<open>callHookSlice2\<close>, from index \<open>i\<close> on: \<open>vs\<close> are the
  elements \<open>slice.Index(i)\<close>, \<open>slice.Index(i+1)\<close>, ...; \<open>addr\<close> is \<open>reflect.Value.Addr\<close>.
  The body has no \<open>break\<close> and no \<open>return\<close>.
\<close>

fun hookLoop ::
  "('v \<Rightarrow> 'v) \<Rightarrow> 'c \<Rightarrow> bool \<Rightarrow> ('c, 'v, 's) hook \<Rightarrow> error option \<Rightarrow> 'v list \<Rightarrow> 's
     \<Rightarrow> (error option \<times> 's) outcome" where
  "hookLoop addr ctx ptr hook firstErr [] s = Done (firstErr, s)"
| "hookLoop addr ctx ptr hook firstErr (v # vs) s =
     (let v' = (if \<not> ptr then addr v else v) in
      case hook ctx v' s of
        Panic \<Rightarrow> Panic
      | Done (err, s') \<Rightarrow>
          hookLoop addr ctx ptr hook
            (if err \<noteq> None \<and> firstErr = None then err else firstErr) vs s')"

text \<open>\<open>callHookSlice\<close> calls \<open>slice.Len()\<close> at once, which panics on the zero Value.\<close>

definition callHookSlice ::
  "('v \<Rightarrow> 'v) \<Rightarrow> 'c \<Rightarrow> 'v reflect_Value \<Rightarrow> bool \<Rightarrow> ('c, 'v, 's) hook \<Rightarrow> 's
     \<Rightarrow> (error option \<times> 's) outcome" where
  "callHookSlice addr ctx sl ptr hook s =
     (case sl of
        Invalid \<Rightarrow> Panic
      | Slice vs \<Rightarrow> hookLoop addr ctx ptr hook None vs s)"

text \<open>\<open>callHookSlice2\<close> guards the loop with \<open>slice.IsValid()\<close>.\<close>

definition callHookSlice2 ::
  "('v \<Rightarrow> 'v) \<Rightarrow> 'c \<Rightarrow> 'v reflect_Value \<Rightarrow> bool \<Rightarrow> ('c, 'v, 's) hook \<Rightarrow> 's
     \<Rightarrow> (error option \<times> 's) outcome" where
  "callHookSlice2 addr ctx sl ptr hook s =
     (case sl of
        Invalid \<Rightarrow> Done (None, s)
      | Slice vs \<Rightarrow> hookLoop addr ctx ptr hook None vs s)"

definition callMethod :: "('c, 's) hook_method option \<Rightarrow> 'c \<Rightarrow> 's \<Rightarrow> (error option \<times> 's) outcome" where
  "callMethod m ctx s = (case m of None \<Rightarrow> Panic | Some f \<Rightarrow> Done (f ctx s))"

definition callBeforeScanHook :: "('c, 'v, 's) hook_methods \<Rightarrow> ('c, 'v, 's) hook" where
  "callBeforeScanHook M ctx v = callMethod (BeforeScan M v) ctx"

definition callAfterScanHook :: "('c, 'v, 's) hook_methods \<Rightarrow> ('c, 'v, 's) hook" where
  "callAfterScanHook M ctx v = callMethod (AfterScan M v) ctx"

definition callAfterSelectHook :: "('c, 'v, 's) hook_methods \<Rightarrow> ('c, 'v, 's) hook" where
  "callAfterSelectHook M ctx v = callMethod (AfterSelect M v) ctx"

definition callBeforeInsertHook :: "('c, 'v, 's) hook_methods \<Rightarrow> ('c, 'v, 's) hook" where
  "callBeforeInsertHook M ctx v = callMethod (BeforeInsert M v) ctx"

definition callAfterInsertHook :: "('c, 'v, 's) hook_methods \<Rightarrow> ('c, 'v, 's) hook" where
  "callAfterInsertHook M ctx v = callMethod (AfterInsert M v) ctx"

definition callBeforeUpdateHook :: "('c, 'v, 's) hook_methods \<Rightarrow> ('c, 'v, 's) hook" where
  "callBeforeUpdateHook M ctx v = callMethod (BeforeUpdate M v) ctx"

definition callAfterUpdateHook :: "('c, 'v, 's) hook_methods \<Rightarrow> ('c, 'v, 's) hook" where
  "callAfterUpdateHook M ctx v = callMethod (AfterUpdate M v) ctx"

definition callBeforeDeleteHook :: "('c, 'v, 's) hook_methods \<Rightarrow> ('c, 'v, 's) hook" where
  "callBeforeDeleteHook M ctx v = callMethod (BeforeDelete M v) ctx"

definition callAfterDeleteHook :: "('c, 'v, 's) hook_methods \<Rightarrow> ('c, 'v, 's) hook" where
  "callAfterDeleteHook M ctx v = callMethod (AfterDelete M v) ctx"

definition callAfterSelectHookSlice where
  "callAfterSelectHookSlice M addr ctx sl ptr =
     callHookSlice2 addr ctx sl ptr (callAfterSelectHook M)"

definition callBeforeInsertHookSlice where
  "callBeforeInsertHookSlice M addr ctx sl ptr =
     callHookSlice addr ctx sl ptr (callBeforeInsertHook M)"

definition callAfterInsertHookSlice where
  "callAfterInsertHookSlice M addr ctx sl ptr =
     callHookSlice2 addr ctx sl ptr (callAfterInsertHook M)"

definition callBeforeUpdateHookSlice where
  "callBeforeUpdateHookSlice M addr ctx sl ptr =
     callHookSlice addr ctx sl ptr (callBeforeUpdateHook M)"

definition callAfterUpdateHookSlice where
  "callAfterUpdateHookSlice M addr ctx sl ptr =
     callHookSlice2 addr ctx sl ptr (callAfterUpdateHook M)"

definition callBeforeDeleteHookSlice where
  "callBeforeDeleteHookSlice M addr ctx sl ptr =
     callHookSlice addr ctx sl ptr (callBeforeDeleteHook M)"

definition callAfterDeleteHookSlice where
  "callAfterDeleteHookSlice M addr ctx sl ptr =
     callHookSlice2 addr ctx sl ptr (callAfterDeleteHook M)"

text \<open>
  What "invoked once per entity, over the whole batch" means: \<open>invokeAll\<close> calls the hook on
  every entity in order, whatever the earlier calls returned, and collects every result;
  \<open>firstError\<close> is the first non-nil error of such a list of results. A batch run that stopped
  at the first error would be \<open>invokeUntilError\<close>.
\<close>

fun invokeAll :: "('c, 'v, 's) hook \<Rightarrow> 'c \<Rightarrow> 'v list \<Rightarrow> 's \<Rightarrow> (error option list \<times> 's) outcome" where
  "invokeAll hook ctx [] s = Done ([], s)"
| "invokeAll hook ctx (v # vs) s =
     (case hook ctx v s of
        Panic \<Rightarrow> Panic
      | Done (err, s') \<Rightarrow>
          (case invokeAll hook ctx vs s' of
             Panic \<Rightarrow> Panic
           | Done (errs, s'') \<Rightarrow> Done (err # errs, s'')))"

fun invokeUntilError :: "('c, 'v, 's) hook \<Rightarrow> 'c \<Rightarrow> 'v list \<Rightarrow> 's \<Rightarrow> (error option \<times> 's) outcome" where
  "invokeUntilError hook ctx [] s = Done (None, s)"
| "invokeUntilError hook ctx (v # vs) s =
     (case hook ctx v s of
        Panic \<Rightarrow> Panic
      | Done (None, s') \<Rightarrow> invokeUntilError hook ctx vs s'
      | Done (Some e, s') \<Rightarrow> Done (Some e, s'))"

fun firstError :: "error option list \<Rightarrow> error option" where
  "firstError [] = None"
| "firstError (None # es) = firstError es"
| "firstError (Some e # es) = Some e"

definition firstOf :: "(error option list \<times> 's) outcome \<Rightarrow> (error option \<times> 's) outcome" where
  "firstOf r = (case r of Panic \<Rightarrow> Panic | Done (errs, s) \<Rightarrow> Done (firstError errs, s))"

text \<open>
  An entity type for examples: entities are numbers, the world is the list of the entities
  whose hook ran, and every hook of an entity in \<open>bad\<close> fails.
\<close>

definition loggingMethod :: "nat set \<Rightarrow> nat \<Rightarrow> (unit, nat list) hook_method option" where
  "loggingMethod bad v =
     Some (\<lambda>ctx log. (if v \<in> bad then Some (Error ''hook failed'') else None, log @ [v]))"

definition loggingHooks :: "nat set \<Rightarrow> (unit, nat, nat list) hook_methods" where
  "loggingHooks bad =
     \<lparr> BeforeScan = loggingMethod bad, AfterScan = loggingMethod bad,
       AfterSelect = loggingMethod bad,
       BeforeInsert = loggingMethod bad, AfterInsert = loggingMethod bad,
       BeforeUpdate = loggingMethod bad, AfterUpdate = loggingMethod bad,
       BeforeDelete = loggingMethod bad, AfterDelete = loggingMethod bad \<rparr>"

section \<open>Statement-level hooks and the statistics counters\<close>

text \<open>
  Bound arguments are opaque \<open>interface{}\<close> values. An \<open>sql.Result\<close> answers
  \<open>RowsAffected()\<close> with a count and an error. The \<open>QueryAppender\<close> of an event is the
  object that rendered the statement: the query itself or one of its three wrappers.
\<close>

datatype arg = ArgInt int | ArgStr string

record sqlResult =
  RowsAffected :: "int \<times> error option"

datatype appender = SelectApp | CountApp | SelectExistsApp | WhereExistsApp

text \<open>
  \<open>QueryEvent\<close>, without its back pointer \<open>DB\<close>. \<open>Stash\<close> is a Go map, \<open>nil\<close> until a
  hook makes one.
\<close>

record QueryEvent =
  evQueryAppender :: appender
  evQuery :: bytes
  evQueryArgs :: "arg list"
  evStartTime :: nat
  evResult :: "sqlResult option"
  evErr :: "error option"
  evStash :: "(string \<rightharpoonup> string) option"

text \<open>
  A \<open>QueryHook\<close> receives the context and a pointer to the event: \<open>BeforeQuery\<close> returns
  the context to carry on with, and both methods may change the event and do anything else,
  which is a change of the hooks' own state \<open>'w\<close>.
\<close>

record ('c, 'w) QueryHook =
  BeforeQuery :: "'c \<Rightarrow> QueryEvent \<Rightarrow> 'w \<Rightarrow> 'c \<times> QueryEvent \<times> 'w"
  AfterQuery :: "'c \<Rightarrow> QueryEvent \<Rightarrow> 'w \<Rightarrow> QueryEvent \<times> 'w"

text \<open>
  The capability flags that \<open>pgdialect.New\<close> names, and the part of \<open>DB\<close> that stays fixed
  while statements run: the registered hooks and the dialect's feature set.
\<close>

datatype feature =
  CTE | WithValues | Returning | InsertReturning | DefaultPlaceholder | DoubleColonCast
  | InsertTableAlias | UpdateTableAlias | DeleteTableAlias | TableCascade | TableIdentity
  | TableTruncate | TableNotExists | InsertOnConflict | SelectExists | GeneratedIdentity
  | CompositeIn

datatype dialectName = PG | MySQL | MSSQL | SQLite

text \<open>
  The formatter of a render: the name of its dialect and whether it is the no-op formatter.
\<close>

record formatter =
  fmtDialect :: dialectName
  IsNop :: bool

record ('c, 'w) DB =
  queryHooks :: "('c, 'w) QueryHook list"
  features :: "feature set"
  db_fmter :: formatter

definition pgFeatures :: "feature set" where
  "pgFeatures =
     {CTE, WithValues, Returning, InsertReturning, DefaultPlaceholder, DoubleColonCast,
      InsertTableAlias, UpdateTableAlias, DeleteTableAlias, TableCascade, TableIdentity,
      TableTruncate, TableNotExists, InsertOnConflict, SelectExists, GeneratedIdentity,
      CompositeIn}"

text \<open>
  Statements handed to the database: the primary scan of a query, a plain exec, a row query
  (\<open>Rows\<close>, \<open>Count\<close> and the native exists form), and the follow-up statement of a
  has-many or many-to-many relation, named by its relation. The log \<open>issued\<close> has them in
  the order they were issued, each with the pinned connection of the query that issued it
  (\<open>None\<close> when the query has none and the pool is used).
\<close>

datatype stmt =
  ScanStmt bytes | ExecStmt bytes | RowsStmt bytes | CountStmt bytes | ExistsStmt bytes
  | SelectManyStmt string | SelectM2MStmt string

text \<open>
  What changes while statements run: the counters \<open>db.stats.Queries\<close> and
  \<open>db.stats.Errors\<close> (\<open>uint64\<close>, incremented atomically), the hooks' state, the clock that
  \<open>time.Now()\<close> reads, and the statements issued so far.
\<close>

record 'w world =
  Queries :: "64 word"
  Errors :: "64 word"
  hookw :: 'w
  now :: nat
  issued :: "(nat option \<times> stmt) list"

fun beforeHooks ::
  "('c, 'w) QueryHook list \<Rightarrow> 'c \<Rightarrow> QueryEvent \<Rightarrow> 'w \<Rightarrow> 'c \<times> QueryEvent \<times> 'w" where
  "beforeHooks [] ctx event w = (ctx, event, w)"
| "beforeHooks (hook # hooks) ctx event w =
     (case BeforeQuery hook ctx event w of
        (ctx', event', w') \<Rightarrow> beforeHooks hooks ctx' event' w')"

definition beforeQuery ::
  "('c, 'w) DB \<Rightarrow> 'c \<Rightarrow> appender \<Rightarrow> bytes \<Rightarrow> arg list \<Rightarrow> 'w world
     \<Rightarrow> ('c \<times> QueryEvent option) \<times> 'w world" where
  "beforeQuery db ctx queryApp query queryArgs W =
     (let W1 = W\<lparr>Queries := Queries W + 1\<rparr> in
      if length (queryHooks db) = 0 then ((ctx, None), W1)
      else
        let event = \<lparr> evQueryAppender = queryApp, evQuery = query, evQueryArgs = queryArgs,
                      evStartTime = now W1, evResult = None, evErr = None, evStash = None \<rparr>
        in case beforeHooks (queryHooks db) ctx event (hookw W1) of
             (ctx', event', w') \<Rightarrow> ((ctx', Some event'), W1\<lparr>hookw := w'\<rparr>))"

text \<open>
  \<open>afterQueryFromIndex\<close> counts \<open>hookIndex\<close> down to 0 and indexes \<open>db.queryHooks\<close> with
  it; an index past the end of the slice is a run-time panic.
\<close>

function afterQueryFromIndex ::
  "('c, 'w) DB \<Rightarrow> 'c \<Rightarrow> QueryEvent \<Rightarrow> int \<Rightarrow> 'w \<Rightarrow> (QueryEvent \<times> 'w) outcome" where
  "afterQueryFromIndex db ctx event hookIndex w =
     (if hookIndex \<ge> 0 then
        (if nat hookIndex < length (queryHooks db) then
           (case AfterQuery (queryHooks db ! nat hookIndex) ctx event w of
              (event', w') \<Rightarrow> afterQueryFromIndex db ctx event' (hookIndex - 1) w')
         else Panic)
      else Done (event, w))"
  by pat_completeness auto
termination
  by (relation "measure (\<lambda>(db, ctx, event, hookIndex, w). nat (hookIndex + 1))") auto

declare afterQueryFromIndex.simps [simp del]

text \<open>The \<open>switch err\<close> of \<open>afterQuery\<close>: \<open>nil\<close> and \<open>sql.ErrNoRows\<close> count as no error.\<close>

definition countError :: "error option \<Rightarrow> 'w world \<Rightarrow> 'w world" where
  "countError err W =
     (case err of
        None \<Rightarrow> W
      | Some e \<Rightarrow> if e = ErrNoRows then W else W\<lparr>Errors := Errors W + 1\<rparr>)"

definition afterQuery ::
  "('c, 'w) DB \<Rightarrow> 'c \<Rightarrow> QueryEvent option \<Rightarrow> sqlResult option \<Rightarrow> error option \<Rightarrow> 'w world
     \<Rightarrow> (QueryEvent option \<times> 'w world) outcome" where
  "afterQuery db ctx event res err W =
     (let W1 = countError err W in
      case event of
        None \<Rightarrow> Done (None, W1)
      | Some ev \<Rightarrow>
          (case afterQueryFromIndex db ctx (ev\<lparr>evResult := res, evErr := err\<rparr>)
                  (int (length (queryHooks db)) - 1) (hookw W1) of
             Panic \<Rightarrow> Panic
           | Done (ev', w') \<Rightarrow> Done (Some ev', W1\<lparr>hookw := w'\<rparr>)))"

text \<open>
  A hook for examples: its context is the list of hooks that derived it, and its state is a
  log of the calls, each with the error the event carried at that moment.
\<close>

definition tracingHook :: "string \<Rightarrow> (string list, (string \<times> string \<times> error option) list) QueryHook" where
  "tracingHook name =
     \<lparr> BeforeQuery = (\<lambda>ctx ev log. (ctx @ [name], ev, log @ [(''BeforeQuery'', name, evErr ev)])),
       AfterQuery = (\<lambda>ctx ev log. (ev, log @ [(''AfterQuery'', name, evErr ev)])) \<rparr>"

definition tracingDB :: "string list \<Rightarrow> (string list, (string \<times> string \<times> error option) list) DB" where
  "tracingDB names =
     \<lparr> queryHooks = map tracingHook names, features = pgFeatures,
       db_fmter = \<lparr> fmtDialect = PG, IsNop = False \<rparr> \<rparr>"

definition world0 :: "'w \<Rightarrow> 'w world" where
  "world0 w = \<lparr> Queries = 0, Errors = 0, hookw = w, now = 0, issued = [] \<rparr>"

section \<open>The select query: data\<close>

text \<open>
  A fragment \<open>schema.QueryWithArgs\<close> is a piece of SQL text with its bound arguments;
  \<open>Args\<close> is a Go slice, \<open>None\<close> when \<open>nil\<close>. The constructors of the schema package are
  not under src/: \<open>SafeQuery\<close> and \<open>SafeQueryWithSep\<close> keep the text and the arguments they
  get (a \<open>nil\<close> argument list becomes the empty one), \<open>UnsafeIdent\<close> makes a fragment with no
  arguments, and \<open>IsZero\<close> recognises the zero value of the struct.
\<close>

record QueryWithArgs =
  Query :: string
  Args :: "arg list option"

record QueryWithSep = QueryWithArgs +
  Sep :: string

definition SafeQuery :: "string \<Rightarrow> arg list \<Rightarrow> QueryWithArgs" where
  "SafeQuery query args = \<lparr> Query = query, Args = Some args \<rparr>"

definition UnsafeIdent :: "string \<Rightarrow> QueryWithArgs" where
  "UnsafeIdent ident = \<lparr> Query = ident, Args = None \<rparr>"

definition SafeQueryWithSep :: "string \<Rightarrow> arg list \<Rightarrow> string \<Rightarrow> QueryWithSep" where
  "SafeQueryWithSep query args sep = \<lparr> Query = query, Args = Some args, Sep = sep \<rparr>"

definition IsZero :: "QueryWithArgs \<Rightarrow> bool" where
  "IsZero fr = (Query fr = [] \<and> Args fr = None)"

text \<open>\<open>append([]any(nil), args...)\<close>: the elements of a possibly \<open>nil\<close> slice.\<close>

definition argsOf :: "arg list option \<Rightarrow> arg list" where
  "argsOf a = (case a of None \<Rightarrow> [] | Some xs \<Rightarrow> xs)"

text \<open>The elements of a Go slice; \<open>append\<close> to a \<open>nil\<close> slice starts from none.\<close>

definition elems :: "'a list option \<Rightarrow> 'a list" where
  "elems a = (case a of None \<Rightarrow> [] | Some xs \<Rightarrow> xs)"

text \<open>
  Table and field metadata, as far as rendering reads it: the table's name (what \<open>%s\<close>
  prints for it), its fields in order, the map from column name to field, and its alias.
\<close>

record Field =
  fieldName :: string
  SQLName :: bytes

record Table =
  TypeName :: string
  Fields :: "Field list"
  FieldMap :: "string \<rightharpoonup> Field"
  SQLAlias :: bytes

text \<open>The relation kinds of the schema package; their declaration is not under src/.\<close>

datatype relationType =
  InvalidRelation | HasOneRelation | BelongsToRelation | HasManyRelation | ManyToManyRelation

record Relation =
  relType :: relationType
  Condition :: "string list"

text \<open>
  A caller's \<open>func(*SelectQuery) *SelectQuery\<close> is a chain of builder calls on the query it
  is given; the chains modelled here select columns and add filters.
\<close>

datatype builderCall =
  CallColumn "string list" | CallColumnExpr string "arg list"
  | CallWhere string "arg list" | CallWhereOr string "arg list"

text \<open>
  The closure that \<open>applyToRelation\<close> stores in \<open>join.apply\<close> captures \<open>apply1\<close>, which is
  non-nil when the relation had conditions at that moment, and \<open>apply2\<close>, the caller's
  function if one was given.
\<close>

record applyFn =
  hasApply1 :: bool
  apply2 :: "builderCall list option"

text \<open>
  A \<open>relationJoin\<close>: its relation, the name it is looked up by, the table of its
  \<open>JoinModel\<close>, the \<open>apply\<close> closure, the columns selected for it (\<open>nil\<close> until set), the
  additional join conditions, and the joins of its \<open>JoinModel\<close>.
\<close>

datatype relationJoin =
  RelationJoin (jRelation: Relation) (jName: string) (jTable: Table) (jApply: "applyFn option")
    (jColumns: "QueryWithArgs list option") (jAdditional: "QueryWithArgs list")
    (jJoins: "relationJoin list")

text \<open>
  A table model: the relations its table declares, by name, each with the table it joins,
  and the joins added so far (\<open>getJoins()\<close>).
\<close>

record TableModel =
  tmRelations :: "string \<rightharpoonup> Relation \<times> Table"
  tmJoins :: "relationJoin list"

text \<open>
  \<open>q.model\<close> and \<open>q.tableModel\<close> point to the same object when the model is a table model:
  \<open>QueryTableModel\<close> stands for that object, whose state is \<open>tableModel\<close>. A model made from
  the \<open>dest\<close> arguments of a call is a fresh table model or some other model.
\<close>

datatype Model = QueryTableModel | NewTableModel TableModel | OtherModel

record withQuery =
  withName :: string
  withRecursive :: bool
  withQueryId :: nat

record indexHints =
  names :: "QueryWithArgs list"
  forJoin :: "QueryWithArgs list"
  forOrderBy :: "QueryWithArgs list"
  forGroupBy :: "QueryWithArgs list"

record joinQuery =
  joinFrag :: QueryWithArgs
  joinOnConds :: "QueryWithSep list"

text \<open>
  The fields of \<open>SelectQuery\<close> and of the structs it embeds (\<open>baseQuery\<close>,
  \<open>whereBaseQuery\<close>, \<open>idxHintsQuery\<close>, \<open>orderLimitOffsetQuery\<close>), all but \<open>union\<close> and the
  pointer \<open>db\<close>, which is a parameter of the operations. A slice whose \<open>nil\<close> is told apart
  from the empty slice somewhere (\<open>columns\<close>, \<open>distinctOn\<close>) is a \<open>list option\<close>; the others
  are lists. \<open>conn\<close> is \<open>None\<close> or the connection the caller pinned.
\<close>

record selectFields =
  conn :: "nat option"
  table :: "Table option"
  model :: "Model option"
  tableModel :: "TableModel option"
  err :: "error option"
  withs :: "withQuery list"
  tables :: "QueryWithArgs list"
  columns :: "QueryWithArgs list option"
  modelTableName :: QueryWithArgs
  flags :: nat
  wheres :: "QueryWithSep list"
  useHints :: "indexHints option"
  ignoreHints :: "indexHints option"
  forceHints :: "indexHints option"
  order :: "QueryWithArgs list"
  limit :: int
  offset :: int
  distinctOn :: "QueryWithArgs list option"
  joins :: "joinQuery list"
  group :: "QueryWithArgs list"
  having :: "QueryWithArgs list"
  selFor :: QueryWithArgs
  comment :: string

datatype SelectQuery =
  SelectQuery (fieldsOf: selectFields) (union: "(string \<times> SelectQuery) list")

definition modify :: "(selectFields \<Rightarrow> selectFields) \<Rightarrow> SelectQuery \<Rightarrow> SelectQuery" where
  "modify g q = SelectQuery (g (fieldsOf q)) (union q)"

definition zeroQuery :: QueryWithArgs where
  "zeroQuery = \<lparr> Query = [], Args = None \<rparr>"

text \<open>\<open>NewSelectQuery\<close>: every field at its zero value.\<close>

definition NewSelectQuery :: SelectQuery where
  "NewSelectQuery =
     SelectQuery
       \<lparr> conn = None, table = None, model = None, tableModel = None, err = None, withs = [],
         tables = [], columns = None, modelTableName = zeroQuery, flags = 0, wheres = [],
         useHints = None, ignoreHints = None, forceHints = None, order = [], limit = 0,
         offset = 0, distinctOn = None, joins = [], group = [], having = [],
         selFor = zeroQuery, comment = [] \<rparr>
       []"

section \<open>The select query: builder calls\<close>

text \<open>
  Modelled from the spec: \<open>baseQuery.setErr\<close> is not under src/. The spec's sticky error:
  a builder state error is "recorded once on the Query", and what later calls return is
  "that first error", so \<open>setErr\<close> stores an error only when none is stored yet.
\<close>

definition setErr :: "error \<Rightarrow> SelectQuery \<Rightarrow> SelectQuery" where
  "setErr e q = (if err (fieldsOf q) = None then modify (\<lambda>f. f\<lparr>err := Some e\<rparr>) q else q)"

text \<open>
  The other \<open>baseQuery\<close> setters that the builder calls below go through are not under src/
  either; each stores or appends its argument in the field it is named after (\<open>WhereGroup\<close>
  shows that \<open>addWhere\<close> collects into \<open>q.where\<close>).
\<close>

definition setConn :: "nat \<Rightarrow> SelectQuery \<Rightarrow> SelectQuery" where
  "setConn c = modify (\<lambda>f. f\<lparr>conn := Some c\<rparr>)"

definition addWhere :: "QueryWithSep \<Rightarrow> SelectQuery \<Rightarrow> SelectQuery" where
  "addWhere w = modify (\<lambda>f. f\<lparr>wheres := wheres f @ [w]\<rparr>)"

definition addColumn :: "QueryWithArgs \<Rightarrow> SelectQuery \<Rightarrow> SelectQuery" where
  "addColumn c = modify (\<lambda>f. f\<lparr>columns := Some (elems (columns f) @ [c])\<rparr>)"

definition Conn :: "nat \<Rightarrow> SelectQuery \<Rightarrow> SelectQuery" where
  "Conn c q = setConn c q"

definition Err :: "error \<Rightarrow> SelectQuery \<Rightarrow> SelectQuery" where
  "Err e q = setErr e q"

definition Distinct :: "SelectQuery \<Rightarrow> SelectQuery" where
  "Distinct = modify (\<lambda>f. f\<lparr>distinctOn := Some []\<rparr>)"

definition DistinctOn :: "string \<Rightarrow> arg list \<Rightarrow> SelectQuery \<Rightarrow> SelectQuery" where
  "DistinctOn query args =
     modify (\<lambda>f. f\<lparr>distinctOn := Some (elems (distinctOn f) @ [SafeQuery query args])\<rparr>)"

definition Column :: "string list \<Rightarrow> SelectQuery \<Rightarrow> SelectQuery" where
  "Column cols q = foldl (\<lambda>q column. addColumn (UnsafeIdent column) q) q cols"

definition ColumnExpr :: "string \<Rightarrow> arg list \<Rightarrow> SelectQuery \<Rightarrow> SelectQuery" where
  "ColumnExpr query args q = addColumn (SafeQuery query args) q"

definition Where :: "string \<Rightarrow> arg list \<Rightarrow> SelectQuery \<Rightarrow> SelectQuery" where
  "Where query args q = addWhere (SafeQueryWithSep query args '' AND '') q"

definition WhereOr :: "string \<Rightarrow> arg list \<Rightarrow> SelectQuery \<Rightarrow> SelectQuery" where
  "WhereOr query args q = addWhere (SafeQueryWithSep query args '' OR '') q"

definition Group :: "string list \<Rightarrow> SelectQuery \<Rightarrow> SelectQuery" where
  "Group cols q =
     foldl (\<lambda>q column. modify (\<lambda>f. f\<lparr>group := group f @ [UnsafeIdent column]\<rparr>) q) q cols"

definition GroupExpr :: "string \<Rightarrow> arg list \<Rightarrow> SelectQuery \<Rightarrow> SelectQuery" where
  "GroupExpr g args = modify (\<lambda>f. f\<lparr>group := group f @ [SafeQuery g args]\<rparr>)"

definition Having :: "string \<Rightarrow> arg list \<Rightarrow> SelectQuery \<Rightarrow> SelectQuery" where
  "Having h args = modify (\<lambda>f. f\<lparr>having := having f @ [SafeQuery h args]\<rparr>)"

definition Limit :: "int \<Rightarrow> SelectQuery \<Rightarrow> SelectQuery" where
  "Limit n = modify (\<lambda>f. f\<lparr>limit := n\<rparr>)"

definition Offset :: "int \<Rightarrow> SelectQuery \<Rightarrow> SelectQuery" where
  "Offset n = modify (\<lambda>f. f\<lparr>offset := n\<rparr>)"

definition For :: "string \<Rightarrow> arg list \<Rightarrow> SelectQuery \<Rightarrow> SelectQuery" where
  "For s args = modify (\<lambda>f. f\<lparr>selFor := SafeQuery s args\<rparr>)"

definition Comment :: "string \<Rightarrow> SelectQuery \<Rightarrow> SelectQuery" where
  "Comment c = modify (\<lambda>f. f\<lparr>comment := c\<rparr>)"

definition addUnion :: "string \<Rightarrow> SelectQuery \<Rightarrow> SelectQuery \<Rightarrow> SelectQuery" where
  "addUnion expr other q = SelectQuery (fieldsOf q) (union q @ [(expr, other)])"

definition Union :: "SelectQuery \<Rightarrow> SelectQuery \<Rightarrow> SelectQuery" where
  "Union other q = addUnion '' UNION '' other q"

definition UnionAll :: "SelectQuery \<Rightarrow> SelectQuery \<Rightarrow> SelectQuery" where
  "UnionAll other q = addUnion '' UNION ALL '' other q"

definition Intersect :: "SelectQuery \<Rightarrow> SelectQuery \<Rightarrow> SelectQuery" where
  "Intersect other q = addUnion '' INTERSECT '' other q"

definition IntersectAll :: "SelectQuery \<Rightarrow> SelectQuery \<Rightarrow> SelectQuery" where
  "IntersectAll other q = addUnion '' INTERSECT ALL '' other q"

definition Except :: "SelectQuery \<Rightarrow> SelectQuery \<Rightarrow> SelectQuery" where
  "Except other q = addUnion '' EXCEPT '' other q"

definition ExceptAll :: "SelectQuery \<Rightarrow> SelectQuery \<Rightarrow> SelectQuery" where
  "ExceptAll other q = addUnion '' EXCEPT ALL '' other q"

definition Join :: "string \<Rightarrow> arg list \<Rightarrow> SelectQuery \<Rightarrow> SelectQuery" where
  "Join j args =
     modify (\<lambda>f. f\<lparr>joins := joins f @ [\<lparr> joinFrag = SafeQuery j args, joinOnConds = [] \<rparr>]\<rparr>)"

text \<open>\<open>joinOn\<close> records an error when there is no join yet, else extends the last join.\<close>

definition joinOn :: "string \<Rightarrow> arg list \<Rightarrow> string \<Rightarrow> SelectQuery \<Rightarrow> SelectQuery" where
  "joinOn cond args sep q =
     (if length (joins (fieldsOf q)) = 0 then setErr (Error ''bun: query has no joins'') q
      else
        modify (\<lambda>f. f\<lparr>joins :=
          butlast (joins f) @
            [(last (joins f))\<lparr>joinOnConds :=
                joinOnConds (last (joins f)) @ [SafeQueryWithSep cond args sep]\<rparr>]\<rparr>) q)"

definition JoinOn :: "string \<Rightarrow> arg list \<Rightarrow> SelectQuery \<Rightarrow> SelectQuery" where
  "JoinOn cond args q = joinOn cond args '' AND '' q"

definition JoinOnOr :: "string \<Rightarrow> arg list \<Rightarrow> SelectQuery \<Rightarrow> SelectQuery" where
  "JoinOnOr cond args q = joinOn cond args '' OR '' q"

text \<open>
  \<open>applyToRelation\<close> replaces the join's \<open>apply\<close> closure: \<open>apply1\<close> is set when the relation
  has conditions, \<open>apply2\<close> when exactly one function was passed.
\<close>

definition applyToRelation :: "relationJoin \<Rightarrow> builderCall list list \<Rightarrow> relationJoin" where
  "applyToRelation join ap =
     RelationJoin (jRelation join) (jName join) (jTable join)
       (Some \<lparr> hasApply1 = (length (Condition (jRelation join)) > 0),
               apply2 = (if length ap = 1 then Some (hd ap) else None) \<rparr>)
       (jColumns join) (jAdditional join) (jJoins join)"

text \<open>
  Modelled from the spec: \<open>tableModel.join(name)\<close> is not under src/. By the spec a relation
  is looked up by name on the model and a name the model does not declare is an error:
  it answers \<open>None\<close> for it, and otherwise the position of the join for that relation
  in the model's joins, which it adds at the end when it is not there yet.
\<close>

definition findJoin :: "string \<Rightarrow> relationJoin list \<Rightarrow> nat option" where
  "findJoin name js =
     (case filter (\<lambda>i. jName (js ! i) = name) [0 ..< length js] of
        [] \<Rightarrow> None
      | i # _ \<Rightarrow> Some i)"

definition tableModel_join :: "TableModel \<Rightarrow> string \<Rightarrow> (TableModel \<times> nat) option" where
  "tableModel_join tm name =
     (case findJoin name (tmJoins tm) of
        Some i \<Rightarrow> Some (tm, i)
      | None \<Rightarrow>
          (case tmRelations tm name of
             None \<Rightarrow> None
           | Some (rel, tbl) \<Rightarrow>
               Some (tm\<lparr>tmJoins := tmJoins tm @ [RelationJoin rel name tbl None None [] []]\<rparr>,
                     length (tmJoins tm))))"

text \<open>\<open>Relation\<close> panics when more than one apply function is passed.\<close>

definition Relation :: "string \<Rightarrow> builderCall list list \<Rightarrow> SelectQuery \<Rightarrow> SelectQuery outcome" where
  "Relation name ap q =
     (if length ap > 1 then Panic
      else
        (case tableModel (fieldsOf q) of
           None \<Rightarrow> Done (setErr ErrNilModel q)
         | Some tm \<Rightarrow>
             (case tableModel_join tm name of
                None \<Rightarrow>
                  Done (setErr (ErrNoRelation
                          (case table (fieldsOf q) of None \<Rightarrow> [] | Some t \<Rightarrow> TypeName t) name) q)
              | Some (tm', i) \<Rightarrow>
                  Done (modify (\<lambda>f. f\<lparr>tableModel :=
                          Some (tm'\<lparr>tmJoins :=
                            (tmJoins tm')[i := applyToRelation (tmJoins tm' ! i) ap]\<rparr>)\<rparr>) q))))"

section \<open>The select query: Clone\<close>

text \<open>
  \<open>cloneArgs\<close> answers \<open>nil\<close> for a slice of length 0 and a copy otherwise. \<open>Clone\<close> fills
  the fields its struct literal names and copies \<open>where\<close>, \<open>joins\<close>, \<open>union\<close>,
  \<open>modelTableName\<close> and \<open>selFor\<close> afterwards; a field the literal does not name (\<open>conn\<close>,
  \<open>err\<close>, \<open>flags\<close>) has its zero value in the clone. \<open>tableModel.clone()\<close> is not under
  src/; by the spec the relation-join state is duplicated, which for a value is itself.
\<close>

definition cloneArgs :: "QueryWithArgs list option \<Rightarrow> QueryWithArgs list option" where
  "cloneArgs a = (case a of None \<Rightarrow> None | Some xs \<Rightarrow> if length xs = 0 then None else Some xs)"

definition cloneHints :: "indexHints option \<Rightarrow> indexHints option" where
  "cloneHints hints =
     (case hints of
        None \<Rightarrow> None
      | Some h \<Rightarrow> Some \<lparr> names = names h, forJoin = forJoin h, forOrderBy = forOrderBy h,
                        forGroupBy = forGroupBy h \<rparr>)"

definition cloneFields :: "selectFields \<Rightarrow> selectFields" where
  "cloneFields f =
     \<lparr> conn = None,
       table = table f,
       model = model f,
       tableModel = tableModel f,
       err = None,
       withs = map (\<lambda>w. \<lparr> withName = withName w, withRecursive = withRecursive w,
                            withQueryId = withQueryId w \<rparr>) (withs f),
       tables = tables f,
       columns = cloneArgs (columns f),
       modelTableName =
         (if \<not> IsZero (modelTableName f)
          then SafeQuery (Query (modelTableName f)) (argsOf (Args (modelTableName f)))
          else modelTableName f),
       flags = 0,
       wheres = map (\<lambda>w. SafeQueryWithSep (Query w) (argsOf (Args w)) (Sep w)) (wheres f),
       useHints = cloneHints (useHints f),
       ignoreHints = cloneHints (ignoreHints f),
       forceHints = cloneHints (forceHints f),
       order = order f,
       limit = limit f,
       offset = offset f,
       distinctOn = cloneArgs (distinctOn f),
       joins = map (\<lambda>j. \<lparr> joinFrag = SafeQuery (Query (joinFrag j)) (argsOf (Args (joinFrag j))),
                            joinOnConds = map (\<lambda>on. SafeQueryWithSep (Query on) (argsOf (Args on)) (Sep on))
                                            (joinOnConds j) \<rparr>) (joins f),
       group = group f,
       having = having f,
       selFor =
         (if \<not> IsZero (selFor f) then SafeQuery (Query (selFor f)) (argsOf (Args (selFor f)))
          else zeroQuery),
       comment = comment f \<rparr>"

fun Clone :: "SelectQuery \<Rightarrow> SelectQuery" where
  "Clone (SelectQuery f us) = SelectQuery (cloneFields f) (map (\<lambda>(expr, u). (expr, Clone u)) us)"

section \<open>The select query: rendering\<close>

text \<open>
  The rendering helpers that \<open>appendQuery\<close> and \<open>appendColumns\<close> call and that are not
  under src/ are parameters, gathered in one record. Each yields the text it appends to the
  buffer (or an error): \<open>appendComment\<close> for \<open>appendComment(b, q.comment)\<close>,
  \<open>appendFragment\<close> for \<open>QueryWithArgs.AppendQuery\<close> under the formatter that
  \<open>formatterWithModel(fmter, q)\<close> makes, \<open>appendTableColumns\<close> for the package-level
  \<open>appendColumns(b, table, fields)\<close>, \<open>AppendString\<close> for the dialect's string literal,
  \<open>appendAlias\<close> and \<open>appendAliasColumn\<close> for the methods of \<open>relationJoin\<close>, and the
  others for the \<open>baseQuery\<close> methods of the same name.
\<close>

record renderer =
  appendComment :: "string \<Rightarrow> bytes"
  appendWith :: "formatter \<Rightarrow> SelectQuery \<Rightarrow> error + bytes"
  appendFragment :: "formatter \<Rightarrow> SelectQuery \<Rightarrow> QueryWithArgs \<Rightarrow> error + bytes"
  hasTables :: "SelectQuery \<Rightarrow> bool"
  appendTablesWithAlias :: "formatter \<Rightarrow> SelectQuery \<Rightarrow> error + bytes"
  appendIndexHints :: "formatter \<Rightarrow> SelectQuery \<Rightarrow> error + bytes"
  appendHasOneJoin :: "formatter \<Rightarrow> SelectQuery \<Rightarrow> relationJoin \<Rightarrow> error + bytes"
  appendWhere :: "formatter \<Rightarrow> SelectQuery \<Rightarrow> error + bytes"
  appendOrder :: "formatter \<Rightarrow> SelectQuery \<Rightarrow> error + bytes"
  appendLimitOffset :: "formatter \<Rightarrow> SelectQuery \<Rightarrow> error + bytes"
  AppendString :: "string \<Rightarrow> bytes"
  appendTableColumns :: "bytes \<Rightarrow> Field list \<Rightarrow> bytes"
  appendAlias :: "formatter \<Rightarrow> relationJoin \<Rightarrow> bytes"
  appendAliasColumn :: "formatter \<Rightarrow> relationJoin \<Rightarrow> string \<Rightarrow> bytes"

text \<open>\<open>b, err = f(...); if err != nil { return nil, err }\<close> and what follows it.\<close>

definition ebind :: "error + 'a \<Rightarrow> ('a \<Rightarrow> error + 'b) \<Rightarrow> error + 'b" where
  "ebind m f = (case m of Inl e \<Rightarrow> Inl e | Inr x \<Rightarrow> f x)"

definition appendTo :: "bytes \<Rightarrow> error + bytes \<Rightarrow> error + bytes" where
  "appendTo b r = (case r of Inl e \<Rightarrow> Inl e | Inr t \<Rightarrow> Inr (b @ t))"

text \<open>
  \<open>for i, x := range xs { if i > 0 { b = append(b, sep...) }; b, err = f(x, b); ... }\<close>,
  from index \<open>i\<close> on; the separator may depend on the element.
\<close>

fun appendEach ::
  "('a \<Rightarrow> bytes \<Rightarrow> error + bytes) \<Rightarrow> ('a \<Rightarrow> bytes) \<Rightarrow> nat \<Rightarrow> 'a list \<Rightarrow> bytes \<Rightarrow> error + bytes" where
  "appendEach f sep i [] b = Inr b"
| "appendEach f sep i (x # xs) b =
     (case f x (if i > 0 then b @ sep x else b) of
        Inl e \<Rightarrow> Inl e
      | Inr b' \<Rightarrow> appendEach f sep (i + 1) xs b')"

text \<open>\<open>bytes.TrimSuffix\<close> of the Go standard library.\<close>

definition TrimSuffix :: "bytes \<Rightarrow> bytes \<Rightarrow> bytes" where
  "TrimSuffix b suf = (if suffix suf b then take (length b - length suf) b else b)"

text \<open>Running a caller's chain of builder calls on a query.\<close>

fun runCall :: "builderCall \<Rightarrow> SelectQuery \<Rightarrow> SelectQuery" where
  "runCall (CallColumn cols) q = Column cols q"
| "runCall (CallColumnExpr query args) q = ColumnExpr query args q"
| "runCall (CallWhere query args) q = Where query args q"
| "runCall (CallWhereOr query args) q = WhereOr query args q"

definition runCalls :: "builderCall list \<Rightarrow> SelectQuery \<Rightarrow> SelectQuery" where
  "runCalls calls q = foldl (\<lambda>q c. runCall c q) q calls"

text \<open>
  The closures of \<open>applyToRelation\<close>: \<open>apply1\<close> adds each condition of the relation to the
  query it is given as an \<open>AND\<close> filter (it reads \<open>join.Relation.Condition\<close> when called);
  \<open>join.apply\<close> calls \<open>apply1\<close>, if set, and then \<open>apply2\<close>, if set.
\<close>

definition apply1 :: "relationJoin \<Rightarrow> SelectQuery \<Rightarrow> SelectQuery" where
  "apply1 join q =
     foldl (\<lambda>q opt. addWhere (SafeQueryWithSep opt [] '' AND '') q) q (Condition (jRelation join))"

definition callApply :: "applyFn \<Rightarrow> relationJoin \<Rightarrow> SelectQuery \<Rightarrow> SelectQuery" where
  "callApply ap join q =
     (let q = (if hasApply1 ap then apply1 join q else q);
          q = (case apply2 ap of Some calls \<Rightarrow> runCalls calls q | None \<Rightarrow> q)
      in q)"

text \<open>
  Modelled from the spec: \<open>relationJoin.applyTo\<close> is not under src/. By the spec a relation
  join carries "an apply closure capturing user-supplied refinement (column selection,
  filters)", and inline joins are spliced into the statement "before rendering proceeds";
  \<open>appendInlineRelColumns\<close> reads the selected columns from \<open>join.columns\<close>. So \<open>applyTo\<close>
  does nothing for a join with no closure, and otherwise runs the closure on the query being
  rendered with the query's own table and column list set aside (the table is the join's,
  the column list is empty), keeps the columns the closure selected as \<open>join.columns\<close>,
  puts the query's table and column list back, and leaves the closure's other changes, its
  filters, on the query.
\<close>

definition applyTo :: "relationJoin \<Rightarrow> SelectQuery \<Rightarrow> relationJoin \<times> SelectQuery" where
  "applyTo j q =
     (case jApply j of
        None \<Rightarrow> (j, q)
      | Some ap \<Rightarrow>
          (let savedTable = table (fieldsOf q);
               savedColumns = columns (fieldsOf q);
               q = modify (\<lambda>f. f\<lparr>table := Some (jTable j), columns := None\<rparr>) q;
               q = callApply ap j q
           in (RelationJoin (jRelation j) (jName j) (jTable j) (jApply j)
                 (columns (fieldsOf q)) (jAdditional j) (jJoins j),
               modify (\<lambda>f. f\<lparr>table := savedTable, columns := savedColumns\<rparr>) q)))"

text \<open>
  \<open>_forEachInlineRelJoin\<close>, here \<open>forEachInlineRelJoins\<close> with the body of its loop as
  \<open>forEachInlineRelJoinStep\<close>, walks the joins depth first and calls \<open>fn\<close> on every has-one and
  belongs-to join, then descends into the joins of its \<open>JoinModel\<close>; other joins are
  skipped. \<open>fn\<close> gets a pointer to the join and works on whatever its closure captured:
  here it returns the join as it leaves it and the new captured state, or an error, which
  ends the walk. The callbacks of this file change a join's columns only, never the joins
  below it.
\<close>

function forEachInlineRelJoinStep ::
    "(relationJoin \<Rightarrow> 'st \<Rightarrow> error + relationJoin \<times> 'st) \<Rightarrow> relationJoin \<Rightarrow> 'st
       \<Rightarrow> error + relationJoin \<times> 'st"
  and forEachInlineRelJoins ::
    "(relationJoin \<Rightarrow> 'st \<Rightarrow> error + relationJoin \<times> 'st) \<Rightarrow> relationJoin list \<Rightarrow> 'st
       \<Rightarrow> error + relationJoin list \<times> 'st"
where
  "forEachInlineRelJoinStep fn (RelationJoin r n t a c ad sub) st =
     (if relType r = HasOneRelation \<or> relType r = BelongsToRelation then
        (case fn (RelationJoin r n t a c ad sub) st of
           Inl e \<Rightarrow> Inl e
         | Inr (j1, st1) \<Rightarrow>
             (case forEachInlineRelJoins fn sub st1 of
                Inl e \<Rightarrow> Inl e
              | Inr (sub', st2) \<Rightarrow>
                  Inr (RelationJoin (jRelation j1) (jName j1) (jTable j1) (jApply j1)
                         (jColumns j1) (jAdditional j1) sub', st2)))
      else Inr (RelationJoin r n t a c ad sub, st))"
| "forEachInlineRelJoins fn [] st = Inr ([], st)"
| "forEachInlineRelJoins fn (j # js) st =
     (case forEachInlineRelJoinStep fn j st of
        Inl e \<Rightarrow> Inl e
      | Inr (j', st') \<Rightarrow>
          (case forEachInlineRelJoins fn js st' of
             Inl e \<Rightarrow> Inl e
           | Inr (js', st'') \<Rightarrow> Inr (j' # js', st'')))"
  by pat_completeness auto
termination
  by (relation "measure (\<lambda>x. case x of Inl (fn, j, st) \<Rightarrow> size j
                                     | Inr (fn, js, st) \<Rightarrow> size_list size js)")
     simp_all

definition forEachInlineRelJoin ::
  "(relationJoin \<Rightarrow> 'st \<Rightarrow> error + relationJoin \<times> 'st) \<Rightarrow> SelectQuery \<Rightarrow> 'st
     \<Rightarrow> error + relationJoin list \<times> 'st" where
  "forEachInlineRelJoin fn q st =
     (case tableModel (fieldsOf q) of
        None \<Rightarrow> Inr ([], st)
      | Some tm \<Rightarrow> forEachInlineRelJoins fn (tmJoins tm) st)"

text \<open>
  The first walk of \<open>appendQuery\<close>: \<open>j.applyTo(q)\<close> on every inline join. The joins it
  leaves are the joins of the query's table model from then on.
\<close>

definition applyInlineRelJoins :: "SelectQuery \<Rightarrow> error + SelectQuery" where
  "applyInlineRelJoins q =
     (case forEachInlineRelJoin (\<lambda>j q. Inr (applyTo j q)) q q of
        Inl e \<Rightarrow> Inl e
      | Inr (js, q') \<Rightarrow>
          Inr (modify (\<lambda>f. f\<lparr>tableModel :=
                 (case tableModel f of None \<Rightarrow> None | Some tm \<Rightarrow> Some (tm\<lparr>tmJoins := js\<rparr>))\<rparr>) q'))"

text \<open>
  The part of a query that running the closures of its relation joins cannot reach: all
  fields but the filters, the column list, the table and the table model.
\<close>

definition untouched :: "selectFields \<Rightarrow> selectFields" where
  "untouched f = f\<lparr>wheres := [], columns := None, table := None, tableModel := None\<rparr>"

text \<open>What a chain of builder calls keeps: everything but the filters and the column list.\<close>

definition keeps :: "SelectQuery \<Rightarrow> SelectQuery \<Rightarrow> bool" where
  "keeps q q' \<longleftrightarrow>
     untouched (fieldsOf q') = untouched (fieldsOf q) \<and> union q' = union q
     \<and> table (fieldsOf q') = table (fieldsOf q)
     \<and> tableModel (fieldsOf q') = tableModel (fieldsOf q)"

definition appendInlineRelColumns ::
  "renderer \<Rightarrow> formatter \<Rightarrow> SelectQuery \<Rightarrow> bytes \<Rightarrow> relationJoin \<Rightarrow> error + bytes" where
  "appendInlineRelColumns R fmter q b join =
     (case jColumns join of
        Some cols \<Rightarrow>
          appendEach
            (\<lambda>col b.
               case (if Args col = None then FieldMap (jTable join) (Query col) else None) of
                 Some field \<Rightarrow>
                   Inr (b @ appendAlias R fmter join @ ''.'' @ SQLName field @ '' AS ''
                          @ appendAliasColumn R fmter join (fieldName field))
               | None \<Rightarrow> appendTo b (appendFragment R fmter q col))
            (\<lambda>_. '', '') 0 cols b
      | None \<Rightarrow>
          appendEach
            (\<lambda>field b.
               Inr (b @ appendAlias R fmter join @ ''.'' @ SQLName field @ '' AS ''
                      @ appendAliasColumn R fmter join (fieldName field)))
            (\<lambda>_. '', '') 0 (Fields (jTable join)) b)"

text \<open>
  \<open>appendColumns\<close>: the \<open>switch\<close> over the query's own columns (\<open>appendOwnColumns\<close>, with
  \<open>appendColumn\<close> as the body of its loop), then the walk over the inline joins, whose
  callback (\<open>inlineRelColumnsStep\<close>) works on the buffer and on \<open>start\<close>, then
  \<open>bytes.TrimSuffix\<close>.
\<close>

definition appendColumn ::
  "renderer \<Rightarrow> formatter \<Rightarrow> SelectQuery \<Rightarrow> QueryWithArgs \<Rightarrow> bytes \<Rightarrow> error + bytes" where
  "appendColumn R fmter q col b =
     (case (if Args col = None
            then (case table (fieldsOf q) of
                    None \<Rightarrow> None
                  | Some t \<Rightarrow> map_option (Pair t) (FieldMap t (Query col)))
            else None) of
        Some (t, field) \<Rightarrow> Inr (b @ SQLAlias t @ ''.'' @ SQLName field)
      | None \<Rightarrow> appendTo b (appendFragment R fmter q col))"

definition appendOwnColumns ::
  "renderer \<Rightarrow> formatter \<Rightarrow> SelectQuery \<Rightarrow> bytes \<Rightarrow> error + bytes" where
  "appendOwnColumns R fmter q b =
     (case columns (fieldsOf q) of
        Some cols \<Rightarrow> appendEach (appendColumn R fmter q) (\<lambda>_. '', '') 0 cols b
      | None \<Rightarrow>
          (case table (fieldsOf q) of
             Some t \<Rightarrow>
               if length (Fields t) > 10 \<and> IsNop fmter
               then Inr (b @ SQLAlias t @ ''.''
                           @ AppendString R (digits (length (Fields t)) @ '' columns''))
               else Inr (b @ appendTableColumns R (SQLAlias t) (Fields t))
           | None \<Rightarrow> Inr (b @ ''*'')))"

definition inlineRelColumnsStep ::
  "renderer \<Rightarrow> formatter \<Rightarrow> SelectQuery \<Rightarrow> relationJoin \<Rightarrow> bytes \<times> nat
     \<Rightarrow> error + relationJoin \<times> bytes \<times> nat" where
  "inlineRelColumnsStep R fmter q join st =
     (case st of (b, start) \<Rightarrow>
        (let b1 = (if length b \<noteq> start then b @ '', '' else b);
             start1 = (if length b \<noteq> start then length b1 else start)
         in ebind (appendInlineRelColumns R fmter q b1 join) (\<lambda>b2. Inr (join, (b2, start1)))))"

definition appendColumns :: "renderer \<Rightarrow> formatter \<Rightarrow> SelectQuery \<Rightarrow> bytes \<Rightarrow> error + bytes" where
  "appendColumns R fmter q b =
     (let start = length b in
      ebind (appendOwnColumns R fmter q b)
        (\<lambda>b. ebind (forEachInlineRelJoin (inlineRelColumnsStep R fmter q) q (b, start))
          (\<lambda>(js, (b, start)). Inr (TrimSuffix b '', ''))))"

definition appendTables :: "renderer \<Rightarrow> formatter \<Rightarrow> SelectQuery \<Rightarrow> bytes \<Rightarrow> error + bytes" where
  "appendTables R fmter q b = appendTo (b @ '' FROM '') (appendTablesWithAlias R fmter q)"

text \<open>\<open>joinQuery.AppendQuery\<close>.\<close>

definition joinQuery_AppendQuery ::
  "renderer \<Rightarrow> formatter \<Rightarrow> SelectQuery \<Rightarrow> joinQuery \<Rightarrow> bytes \<Rightarrow> error + bytes" where
  "joinQuery_AppendQuery R fmter q j b =
     ebind (appendTo (b @ '' '') (appendFragment R fmter q (joinFrag j)))
       (\<lambda>b. if length (joinOnConds j) > 0 then
               appendEach
                 (\<lambda>on b. ebind (appendTo (b @ ''('')
                                   (appendFragment R fmter q (QueryWithArgs.truncate on)))
                            (\<lambda>b. Inr (b @ '')'')))
                 Sep 0 (joinOnConds j) (b @ '' ON '')
             else Inr b)"

text \<open>
  \<open>appendQuery\<close> in parts. \<open>cteCount\<close> is computed first, from the query as it is on
  entry. \<open>selectClauses\<close> is the straight-line part from \<open>SELECT\<close> to the locking clause, on
  the query as the first walk left it: \<open>selectList\<close> up to the column list, \<open>fromClauses\<close>
  from the tables on, with one definition for each loop of the source.
\<close>

definition cteCount :: "SelectQuery \<Rightarrow> bool \<Rightarrow> bool" where
  "cteCount q count \<longleftrightarrow>
     count \<and> (length (group (fieldsOf q)) > 0 \<or> distinctOn (fieldsOf q) \<noteq> None)"

definition appendDistinct :: "renderer \<Rightarrow> formatter \<Rightarrow> SelectQuery \<Rightarrow> bytes \<Rightarrow> error + bytes" where
  "appendDistinct R fmter q b =
     (if length (elems (distinctOn (fieldsOf q))) > 0 then
        ebind (appendEach (\<lambda>app b. appendTo b (appendFragment R fmter q app)) (\<lambda>_. '', '') 0
                 (elems (distinctOn (fieldsOf q))) (b @ ''DISTINCT ON (''))
          (\<lambda>b. Inr (b @ '') ''))
      else if distinctOn (fieldsOf q) \<noteq> None then Inr (b @ ''DISTINCT '')
      else Inr b)"

definition selectList ::
  "renderer \<Rightarrow> formatter \<Rightarrow> SelectQuery \<Rightarrow> bytes \<Rightarrow> bool \<Rightarrow> bool \<Rightarrow> error + bytes" where
  "selectList R fmter q b count cte =
     ebind (appendDistinct R fmter q (b @ ''SELECT ''))
       (\<lambda>b. if count \<and> \<not> cte then Inr (b @ ''count(*)'')
             else appendColumns R fmter q
                    (if limit (fieldsOf q) > 0 \<and> length (order (fieldsOf q)) = 0
                         \<and> fmtDialect fmter = MSSQL
                     then b @ ''0 AS _temp_sort, '' else b))"

definition appendInlineJoins ::
  "renderer \<Rightarrow> formatter \<Rightarrow> SelectQuery \<Rightarrow> bytes \<Rightarrow> error + bytes" where
  "appendInlineJoins R fmter q b =
     ebind
       (forEachInlineRelJoin
          (\<lambda>j b. ebind (appendTo (b @ '' '') (appendHasOneJoin R fmter q j)) (\<lambda>b. Inr (j, b)))
          q b)
       (\<lambda>(js, b). Inr b)"

definition appendJoins :: "renderer \<Rightarrow> formatter \<Rightarrow> SelectQuery \<Rightarrow> bytes \<Rightarrow> error + bytes" where
  "appendJoins R fmter q b =
     appendEach (joinQuery_AppendQuery R fmter q) (\<lambda>_. []) 0 (joins (fieldsOf q)) b"

definition appendGroup :: "renderer \<Rightarrow> formatter \<Rightarrow> SelectQuery \<Rightarrow> bytes \<Rightarrow> error + bytes" where
  "appendGroup R fmter q b =
     (if length (group (fieldsOf q)) > 0 then
        appendEach (\<lambda>f b. appendTo b (appendFragment R fmter q f)) (\<lambda>_. '', '') 0
          (group (fieldsOf q)) (b @ '' GROUP BY '')
      else Inr b)"

definition appendHaving :: "renderer \<Rightarrow> formatter \<Rightarrow> SelectQuery \<Rightarrow> bytes \<Rightarrow> error + bytes" where
  "appendHaving R fmter q b =
     (if length (having (fieldsOf q)) > 0 then
        appendEach
          (\<lambda>f b. ebind (appendTo (b @ ''('') (appendFragment R fmter q f)) (\<lambda>b. Inr (b @ '')'')))
          (\<lambda>_. '' AND '') 0 (having (fieldsOf q)) (b @ '' HAVING '')
      else Inr b)"

definition appendOrderLimitFor ::
  "renderer \<Rightarrow> formatter \<Rightarrow> SelectQuery \<Rightarrow> bytes \<Rightarrow> error + bytes" where
  "appendOrderLimitFor R fmter q b =
     ebind (appendTo b (appendOrder R fmter q))
       (\<lambda>b. ebind (appendTo b (appendLimitOffset R fmter q))
         (\<lambda>b. if \<not> IsZero (selFor (fieldsOf q)) then
                 appendTo (b @ '' FOR '') (appendFragment R fmter q (selFor (fieldsOf q)))
               else Inr b))"

definition fromClauses ::
  "renderer \<Rightarrow> formatter \<Rightarrow> SelectQuery \<Rightarrow> bytes \<Rightarrow> bool \<Rightarrow> error + bytes" where
  "fromClauses R fmter q b count =
     ebind (if hasTables R q then appendTables R fmter q b else Inr b)
     (\<lambda>b. ebind (appendTo b (appendIndexHints R fmter q))
     (\<lambda>b. ebind (appendInlineJoins R fmter q b)
     (\<lambda>b. ebind (appendJoins R fmter q b)
     (\<lambda>b. ebind (appendTo b (appendWhere R fmter q))
     (\<lambda>b. ebind (appendGroup R fmter q b)
     (\<lambda>b. ebind (appendHaving R fmter q b)
     (\<lambda>b. if \<not> count then appendOrderLimitFor R fmter q b else Inr b)))))))"

definition selectClauses ::
  "renderer \<Rightarrow> formatter \<Rightarrow> SelectQuery \<Rightarrow> bytes \<Rightarrow> bool \<Rightarrow> bool \<Rightarrow> error + bytes" where
  "selectClauses R fmter q b count cte =
     ebind (selectList R fmter q b count cte) (\<lambda>b. fromClauses R fmter q b count)"

text \<open>
  \<open>selectHead\<close> is \<open>appendQuery\<close> up to the closing of the set operation: the error check,
  the count wrapper, the opening parenthesis, \<open>WITH\<close>, the first walk (which changes the
  query), and the clauses. It returns the buffer and the query as rendering left it.
\<close>

definition selectHead ::
  "renderer \<Rightarrow> formatter \<Rightarrow> SelectQuery \<Rightarrow> bytes \<Rightarrow> bool \<Rightarrow> (error + bytes) \<times> SelectQuery" where
  "selectHead R fmter q b count =
     (case err (fieldsOf q) of
        Some e \<Rightarrow> (Inl e, q)
      | None \<Rightarrow>
          (let b = (if cteCount q count then b @ ''WITH _count_wrapper AS ('' else b);
               b = (if length (union q) > 0 then b @ ''('' else b)
           in case appendTo b (appendWith R fmter q) of
                Inl e \<Rightarrow> (Inl e, q)
              | Inr b \<Rightarrow>
                  (case applyInlineRelJoins q of
                     Inl e \<Rightarrow> (Inl e, q)
                   | Inr q1 \<Rightarrow> (selectClauses R fmter q1 b count (cteCount q count), q1))))"

definition closeCount :: "SelectQuery \<Rightarrow> bool \<Rightarrow> bytes \<Rightarrow> bytes" where
  "closeCount q count b =
     (if cteCount q count then b @ '') SELECT count(*) FROM _count_wrapper'' else b)"

text \<open>
  \<open>appendQuery\<close>, and the loop over \<open>q.union\<close> with its calls of \<open>u.query.AppendQuery\<close>
  (which is \<open>appendComment\<close> and then \<open>appendQuery\<close> with \<open>count = false\<close>). A render may
  change the query and the operands of its set operations, which are pointers: both
  functions return them as they are afterwards.
\<close>

function appendQuery ::
    "renderer \<Rightarrow> formatter \<Rightarrow> SelectQuery \<Rightarrow> bytes \<Rightarrow> bool \<Rightarrow> (error + bytes) \<times> SelectQuery"
  and appendUnions ::
    "renderer \<Rightarrow> formatter \<Rightarrow> (string \<times> SelectQuery) list \<Rightarrow> bytes
       \<Rightarrow> (error + bytes) \<times> (string \<times> SelectQuery) list"
where
  "appendQuery R fmter (SelectQuery f us) b count =
     (case selectHead R fmter (SelectQuery f us) b count of
        (Inl e, q1) \<Rightarrow> (Inl e, q1)
      | (Inr b1, q1) \<Rightarrow>
          if length us > 0 then
            (case appendUnions R fmter us (b1 @ '')'') of
               (Inl e, us') \<Rightarrow> (Inl e, SelectQuery (fieldsOf q1) us')
             | (Inr b2, us') \<Rightarrow>
                 (Inr (closeCount (SelectQuery f us) count b2), SelectQuery (fieldsOf q1) us'))
          else (Inr (closeCount (SelectQuery f us) count b1), q1))"
| "appendUnions R fmter [] b = (Inr b, [])"
| "appendUnions R fmter ((expr, u) # us) b =
     (case appendQuery R fmter u (b @ expr @ ''('' @ appendComment R (comment (fieldsOf u))) False of
        (Inl e, u') \<Rightarrow> (Inl e, (expr, u') # us)
      | (Inr b1, u') \<Rightarrow>
          (case appendUnions R fmter us (b1 @ '')'') of
             (r, us') \<Rightarrow> (r, (expr, u') # us')))"
  by pat_completeness auto
termination
  by (relation "measure (\<lambda>x. case x of
                   Inl (R, fmter, q, b, count) \<Rightarrow> size q
                 | Inr (R, fmter, us, b) \<Rightarrow> size_list (size_prod (\<lambda>_. 0) size) us)")
     simp_all

definition AppendQuery ::
  "renderer \<Rightarrow> formatter \<Rightarrow> SelectQuery \<Rightarrow> bytes \<Rightarrow> (error + bytes) \<times> SelectQuery" where
  "AppendQuery R fmter q b = appendQuery R fmter q (b @ appendComment R (comment (fieldsOf q))) False"

text \<open>The three wrappers \<open>countQuery\<close>, \<open>selectExistsQuery\<close> and \<open>whereExistsQuery\<close>.\<close>

definition countQuery_AppendQuery ::
  "renderer \<Rightarrow> formatter \<Rightarrow> SelectQuery \<Rightarrow> bytes \<Rightarrow> (error + bytes) \<times> SelectQuery" where
  "countQuery_AppendQuery R fmter q b =
     (case err (fieldsOf q) of
        Some e \<Rightarrow> (Inl e, q)
      | None \<Rightarrow> appendQuery R fmter q b True)"

definition selectExistsQuery_AppendQuery ::
  "renderer \<Rightarrow> formatter \<Rightarrow> SelectQuery \<Rightarrow> bytes \<Rightarrow> (error + bytes) \<times> SelectQuery" where
  "selectExistsQuery_AppendQuery R fmter q b =
     (case err (fieldsOf q) of
        Some e \<Rightarrow> (Inl e, q)
      | None \<Rightarrow>
          (case appendQuery R fmter q (b @ ''SELECT EXISTS ('') False of
             (Inl e, q') \<Rightarrow> (Inl e, q')
           | (Inr b', q') \<Rightarrow> (Inr (b' @ '')''), q')))"

definition whereExistsQuery_AppendQuery ::
  "renderer \<Rightarrow> formatter \<Rightarrow> SelectQuery \<Rightarrow> bytes \<Rightarrow> (error + bytes) \<times> SelectQuery" where
  "whereExistsQuery_AppendQuery R fmter q b =
     (case err (fieldsOf q) of
        Some e \<Rightarrow> (Inl e, q)
      | None \<Rightarrow>
          (case appendQuery R fmter q (b @ ''SELECT 1 WHERE EXISTS ('') False of
             (Inl e, q') \<Rightarrow> (Inl e, q')
           | (Inr b', q') \<Rightarrow> (Inr (b' @ '')''), q')))"

text \<open>\<open>String\<close> panics when rendering fails.\<close>

definition String :: "renderer \<Rightarrow> formatter \<Rightarrow> SelectQuery \<Rightarrow> (bytes \<times> SelectQuery) outcome" where
  "String R fmter q =
     (case AppendQuery R fmter q [] of
        (Inl e, q') \<Rightarrow> Panic
      | (Inr buf, q') \<Rightarrow> Done (buf, q'))"

section \<open>The select query: terminal calls\<close>

text \<open>
  The collaborators of the terminal calls that are not under src/ are parameters. Of the
  model layer: \<open>getModel\<close> (the model to scan into, from the \<open>dest\<close> arguments or the
  query's own model), \<open>beforeAppendModel\<close>, the comment that the context carries, if any,
  and the \<open>BeforeSelectHook\<close> and \<open>AfterSelectHook\<close> that the zero value of a table's type
  may implement (each is handed the query and may change it).
\<close>

record 'c collab =
  getModel :: "SelectQuery \<Rightarrow> arg list \<Rightarrow> error + Model"
  beforeAppendModel :: "SelectQuery \<Rightarrow> error option"
  contextComment :: "'c \<Rightarrow> string option"
  BeforeSelectHook :: "Table \<Rightarrow> ('c \<Rightarrow> SelectQuery \<Rightarrow> error option \<times> SelectQuery) option"
  AfterSelectHook :: "Table \<Rightarrow> ('c \<Rightarrow> SelectQuery \<Rightarrow> error option \<times> SelectQuery) option"

text \<open>
  Of the execution layer: what the database answers to a statement, given the statements
  issued before it. \<open>dbScan\<close> and \<open>dbExec\<close> answer \<open>baseQuery.scan\<close> and
  \<open>baseQuery.exec\<close>, \<open>dbQueryRows\<close> answers \<open>QueryContext\<close>, \<open>dbQueryRowInt\<close> and
  \<open>dbQueryRowBool\<close> answer \<open>QueryRowContext(...).Scan\<close> into an \<open>int\<close> and a \<open>bool\<close>,
  \<open>dbSelectMany\<close> and \<open>dbSelectM2M\<close> answer the follow-up statement of a relation join.
\<close>

record adapter =
  dbScan :: "(nat option \<times> stmt) list \<Rightarrow> bytes \<Rightarrow> Model \<Rightarrow> error + sqlResult"
  dbExec :: "(nat option \<times> stmt) list \<Rightarrow> bytes \<Rightarrow> error + sqlResult"
  dbQueryRows :: "(nat option \<times> stmt) list \<Rightarrow> bytes \<Rightarrow> error option"
  dbQueryRowInt :: "(nat option \<times> stmt) list \<Rightarrow> bytes \<Rightarrow> int \<times> error option"
  dbQueryRowBool :: "(nat option \<times> stmt) list \<Rightarrow> bytes \<Rightarrow> bool \<times> error option"
  dbSelectMany :: "(nat option \<times> stmt) list \<Rightarrow> relationJoin \<Rightarrow> error option"
  dbSelectM2M :: "(nat option \<times> stmt) list \<Rightarrow> relationJoin \<Rightarrow> error option"

text \<open>
  \<open>setCommentFromContext\<close> is not under src/; its callers say what it does: "if a comment
  is propagated via the context, use it".
\<close>

definition setCommentFromContext :: "'c collab \<Rightarrow> 'c \<Rightarrow> SelectQuery \<Rightarrow> SelectQuery" where
  "setCommentFromContext C ctx q =
     (case contextComment C ctx of None \<Rightarrow> q | Some s \<Rightarrow> Comment s q)"

definition issue :: "nat option \<Rightarrow> stmt \<Rightarrow> 'w world \<Rightarrow> 'w world" where
  "issue c s W = W\<lparr>issued := issued W @ [(c, s)]\<rparr>"

text \<open>
  \<open>baseQuery.scan\<close> and \<open>baseQuery.exec\<close> hand the statement to the database on the
  query's connection and return its result; \<open>db.makeQueryBytes()\<close> is an empty buffer;
  \<open>q.hasFeature\<close> asks the dialect's feature set.
\<close>

definition scan ::
  "adapter \<Rightarrow> SelectQuery \<Rightarrow> bytes \<Rightarrow> Model \<Rightarrow> 'w world \<Rightarrow> (error + sqlResult) \<times> 'w world" where
  "scan A q query m W =
     (dbScan A (issued W) query m, issue (conn (fieldsOf q)) (ScanStmt query) W)"

definition exec ::
  "adapter \<Rightarrow> SelectQuery \<Rightarrow> bytes \<Rightarrow> 'w world \<Rightarrow> (error + sqlResult) \<times> 'w world" where
  "exec A q query W =
     (dbExec A (issued W) query, issue (conn (fieldsOf q)) (ExecStmt query) W)"

definition makeQueryBytes :: bytes where
  "makeQueryBytes = []"

definition hasFeature :: "('c, 'w) DB \<Rightarrow> feature \<Rightarrow> bool" where
  "hasFeature db feat \<longleftrightarrow> feat \<in> features db"

text \<open>
  \<open>selectJoins\<close>: a has-one or belongs-to join descends into the joins of its
  \<open>JoinModel\<close>; a has-many join and a many-to-many join issue their follow-up statement
  (\<open>j.selectMany\<close>, \<open>j.selectM2M\<close>) on a new query with the connection of \<open>q\<close>; any other
  relation type panics. The first error ends the loop. \<open>selectJoinsStep\<close> is the body of
  the loop.
\<close>

function selectJoinsStep ::
    "adapter \<Rightarrow> nat option \<Rightarrow> relationJoin \<Rightarrow> 'w world \<Rightarrow> (error option \<times> 'w world) outcome"
  and selectJoins ::
    "adapter \<Rightarrow> nat option \<Rightarrow> relationJoin list \<Rightarrow> 'w world \<Rightarrow> (error option \<times> 'w world) outcome"
where
  "selectJoinsStep A c (RelationJoin r n t a cs ad sub) W =
     (case relType r of
        HasOneRelation \<Rightarrow> selectJoins A c sub W
      | BelongsToRelation \<Rightarrow> selectJoins A c sub W
      | HasManyRelation \<Rightarrow>
          Done (dbSelectMany A (issued W) (RelationJoin r n t a cs ad sub),
                issue c (SelectManyStmt n) W)
      | ManyToManyRelation \<Rightarrow>
          Done (dbSelectM2M A (issued W) (RelationJoin r n t a cs ad sub),
                issue c (SelectM2MStmt n) W)
      | InvalidRelation \<Rightarrow> Panic)"
| "selectJoins A c [] W = Done (None, W)"
| "selectJoins A c (j # js) W =
     (case selectJoinsStep A c j W of
        Panic \<Rightarrow> Panic
      | Done (Some e, W') \<Rightarrow> Done (Some e, W')
      | Done (None, W') \<Rightarrow> selectJoins A c js W')"
  by pat_completeness auto
termination
  by (relation "measure (\<lambda>x. case x of Inl (A, c, j, W) \<Rightarrow> size j
                                     | Inr (A, c, js, W) \<Rightarrow> size_list size js)")
     simp_all

definition beforeSelectHook :: "'c collab \<Rightarrow> 'c \<Rightarrow> SelectQuery \<Rightarrow> error option \<times> SelectQuery" where
  "beforeSelectHook C ctx q =
     (case table (fieldsOf q) of
        None \<Rightarrow> (None, q)
      | Some t \<Rightarrow> (case BeforeSelectHook C t of None \<Rightarrow> (None, q) | Some hook \<Rightarrow> hook ctx q))"

definition afterSelectHook :: "'c collab \<Rightarrow> 'c \<Rightarrow> SelectQuery \<Rightarrow> error option \<times> SelectQuery" where
  "afterSelectHook C ctx q =
     (case table (fieldsOf q) of
        None \<Rightarrow> (None, q)
      | Some t \<Rightarrow> (case AfterSelectHook C t of None \<Rightarrow> (None, q) | Some hook \<Rightarrow> hook ctx q))"

text \<open>
  The joins of \<open>model.(TableModel)\<close> in \<open>scanResult\<close>: those of the query's own table
  model, as they are after rendering, or those of a fresh one; no joins when the model is
  not a table model.
\<close>

definition modelJoins :: "SelectQuery \<Rightarrow> Model \<Rightarrow> relationJoin list option" where
  "modelJoins q m =
     (case m of
        QueryTableModel \<Rightarrow> map_option tmJoins (tableModel (fieldsOf q))
      | NewTableModel tm \<Rightarrow> Some (tmJoins tm)
      | OtherModel \<Rightarrow> None)"

definition hasManyDest :: "SelectQuery \<Rightarrow> arg list \<Rightarrow> bool" where
  "hasManyDest q dest \<longleftrightarrow>
     length dest > 0 \<and>
     (case tableModel (fieldsOf q) of
        None \<Rightarrow> False
      | Some tm \<Rightarrow>
          list_ex (\<lambda>j. relType (jRelation j) = HasManyRelation
                       \<or> relType (jRelation j) = ManyToManyRelation) (tmJoins tm))"

text \<open>
  \<open>scanResult\<close>. After the primary scan comes the block
  \<open>if n, _ := res.RowsAffected(); n > 0 { ... selectJoins ... }\<close>, here \<open>resolveJoins\<close>.
\<close>

definition resolveJoins ::
  "adapter \<Rightarrow> SelectQuery \<Rightarrow> Model \<Rightarrow> sqlResult \<Rightarrow> 'w world \<Rightarrow> (error option \<times> 'w world) outcome" where
  "resolveJoins A q m res W =
     (if fst (RowsAffected res) > 0
      then (case modelJoins q m of
              Some js \<Rightarrow> selectJoins A (conn (fieldsOf q)) js W
            | None \<Rightarrow> Done (None, W))
      else Done (None, W))"

definition scanResult ::
  "'c collab \<Rightarrow> adapter \<Rightarrow> renderer \<Rightarrow> ('c, 'w) DB \<Rightarrow> 'c \<Rightarrow> SelectQuery \<Rightarrow> arg list \<Rightarrow> 'w world
     \<Rightarrow> ((error + sqlResult) \<times> SelectQuery \<times> 'w world) outcome" where
  "scanResult C A R db ctx q dest W =
     (case err (fieldsOf q) of
        Some e \<Rightarrow> Done (Inl e, q, W)
      | None \<Rightarrow>
     (case getModel C q dest of
        Inl e \<Rightarrow> Done (Inl e, q, W)
      | Inr m \<Rightarrow>
     if hasManyDest q dest then
       Done (Inl (Error ''When querying has-many or many-to-many relationships, you should use Model instead of the dest parameter in Scan.''), q, W)
     else
     (case beforeSelectHook C ctx q of
        (Some e, q) \<Rightarrow> Done (Inl e, q, W)
      | (None, q) \<Rightarrow>
     (case beforeAppendModel C q of
        Some e \<Rightarrow> Done (Inl e, q, W)
      | None \<Rightarrow>
     (case AppendQuery R (db_fmter db) (setCommentFromContext C ctx q) makeQueryBytes of
        (Inl e, q) \<Rightarrow> Done (Inl e, q, W)
      | (Inr query, q) \<Rightarrow>
     (case scan A q query m W of
        (Inl e, W) \<Rightarrow> Done (Inl e, q, W)
      | (Inr res, W) \<Rightarrow>
     (case resolveJoins A q m res W of
        Panic \<Rightarrow> Panic
      | Done (Some e, W) \<Rightarrow> Done (Inl e, q, W)
      | Done (None, W) \<Rightarrow>
     (case afterSelectHook C ctx q of
        (Some e, q) \<Rightarrow> Done (Inl e, q, W)
      | (None, q) \<Rightarrow> Done (Inr res, q, W)))))))))"

definition Scan ::
  "'c collab \<Rightarrow> adapter \<Rightarrow> renderer \<Rightarrow> ('c, 'w) DB \<Rightarrow> 'c \<Rightarrow> SelectQuery \<Rightarrow> arg list \<Rightarrow> 'w world
     \<Rightarrow> (error option \<times> SelectQuery \<times> 'w world) outcome" where
  "Scan C A R db ctx q dest W =
     (case scanResult C A R db ctx q dest W of
        Panic \<Rightarrow> Panic
      | Done (Inl e, q, W) \<Rightarrow> Done (Some e, q, W)
      | Done (Inr res, q, W) \<Rightarrow> Done (None, q, W))"

definition Rows ::
  "'c collab \<Rightarrow> adapter \<Rightarrow> renderer \<Rightarrow> ('c, 'w) DB \<Rightarrow> 'c \<Rightarrow> SelectQuery \<Rightarrow> 'w world
     \<Rightarrow> (error option \<times> SelectQuery \<times> 'w world) outcome" where
  "Rows C A R db ctx q W =
     (case err (fieldsOf q) of
        Some e \<Rightarrow> Done (Some e, q, W)
      | None \<Rightarrow>
     (case beforeAppendModel C q of
        Some e \<Rightarrow> Done (Some e, q, W)
      | None \<Rightarrow>
     (case AppendQuery R (db_fmter db) (setCommentFromContext C ctx q) makeQueryBytes of
        (Inl e, q) \<Rightarrow> Done (Some e, q, W)
      | (Inr query, q) \<Rightarrow>
     (case beforeQuery db ctx SelectApp query [] W of
        ((ctx, event), W) \<Rightarrow>
     (case afterQuery db ctx event None (dbQueryRows A (issued W) query)
             (issue (conn (fieldsOf q)) (RowsStmt query) W) of
        Panic \<Rightarrow> Panic
      | Done (event, W') \<Rightarrow> Done (dbQueryRows A (issued W) query, q, W'))))))"

definition Exec ::
  "'c collab \<Rightarrow> adapter \<Rightarrow> renderer \<Rightarrow> ('c, 'w) DB \<Rightarrow> 'c \<Rightarrow> SelectQuery \<Rightarrow> arg list \<Rightarrow> 'w world
     \<Rightarrow> ((error + sqlResult) \<times> SelectQuery \<times> 'w world) outcome" where
  "Exec C A R db ctx q dest W =
     (case err (fieldsOf q) of
        Some e \<Rightarrow> Done (Inl e, q, W)
      | None \<Rightarrow>
     (case beforeAppendModel C q of
        Some e \<Rightarrow> Done (Inl e, q, W)
      | None \<Rightarrow>
     (case AppendQuery R (db_fmter db) (setCommentFromContext C ctx q) makeQueryBytes of
        (Inl e, q) \<Rightarrow> Done (Inl e, q, W)
      | (Inr query, q) \<Rightarrow>
          if length dest > 0 then
            (case getModel C q dest of
               Inl e \<Rightarrow> Done (Inl e, q, W)
             | Inr m \<Rightarrow> (case scan A q query m W of (r, W) \<Rightarrow> Done (r, q, W)))
          else (case exec A q query W of (r, W) \<Rightarrow> Done (r, q, W)))))"

definition Count ::
  "'c collab \<Rightarrow> adapter \<Rightarrow> renderer \<Rightarrow> ('c, 'w) DB \<Rightarrow> 'c \<Rightarrow> SelectQuery \<Rightarrow> 'w world
     \<Rightarrow> ((int \<times> error option) \<times> SelectQuery \<times> 'w world) outcome" where
  "Count C A R db ctx q W =
     (case err (fieldsOf q) of
        Some e \<Rightarrow> Done ((0, Some e), q, W)
      | None \<Rightarrow>
     (case countQuery_AppendQuery R (db_fmter db) (setCommentFromContext C ctx q) [] of
        (Inl e, q) \<Rightarrow> Done ((0, Some e), q, W)
      | (Inr query, q) \<Rightarrow>
     (case beforeQuery db ctx CountApp query [] W of
        ((ctx, event), W) \<Rightarrow>
     (case afterQuery db ctx event None (snd (dbQueryRowInt A (issued W) query))
             (issue (conn (fieldsOf q)) (CountStmt query) W) of
        Panic \<Rightarrow> Panic
      | Done (event, W') \<Rightarrow> Done (dbQueryRowInt A (issued W) query, q, W')))))"

text \<open>
  \<open>scanAndCountSeq\<close>: the scan is skipped for a negative limit; the count always runs;
  the error returned is the scan's if it failed, else the count's.
\<close>

definition scanAndCountSeq ::
  "'c collab \<Rightarrow> adapter \<Rightarrow> renderer \<Rightarrow> ('c, 'w) DB \<Rightarrow> 'c \<Rightarrow> SelectQuery \<Rightarrow> arg list \<Rightarrow> 'w world
     \<Rightarrow> ((int \<times> error option) \<times> SelectQuery \<times> 'w world) outcome" where
  "scanAndCountSeq C A R db ctx q dest W =
     (case (if limit (fieldsOf q) \<ge> 0 then Scan C A R db ctx q dest W
            else Done (None, q, W)) of
        Panic \<Rightarrow> Panic
      | Done (firstErr, q, W) \<Rightarrow>
          (case Count C A R db ctx q W of
             Panic \<Rightarrow> Panic
           | Done ((count, err'), q, W) \<Rightarrow>
               Done ((count, if err' \<noteq> None \<and> firstErr = None then err' else firstErr), q, W)))"

text \<open>
  \<open>ScanAndCount\<close>. Without limit and offset it is \<open>scanResult\<close> and the count is the
  rows-affected count of its result (\<open>int(n)\<close> of an \<open>int64\<close>, the same number on a 64-bit
  platform). Otherwise a query with no pinned connection goes to
  \<open>scanAndCountConcurrently\<close>, which runs two goroutines; their interleaving is outside
  this model and the function is the parameter \<open>concurrently\<close>.
\<close>

definition ScanAndCount ::
  "('c \<Rightarrow> SelectQuery \<Rightarrow> arg list \<Rightarrow> 'w world
      \<Rightarrow> ((int \<times> error option) \<times> SelectQuery \<times> 'w world) outcome)
   \<Rightarrow> 'c collab \<Rightarrow> adapter \<Rightarrow> renderer \<Rightarrow> ('c, 'w) DB \<Rightarrow> 'c \<Rightarrow> SelectQuery \<Rightarrow> arg list \<Rightarrow> 'w world
     \<Rightarrow> ((int \<times> error option) \<times> SelectQuery \<times> 'w world) outcome" where
  "ScanAndCount concurrently C A R db ctx q dest W =
     (if offset (fieldsOf q) = 0 \<and> limit (fieldsOf q) = 0 then
        (case scanResult C A R db ctx q dest W of
           Panic \<Rightarrow> Panic
         | Done (Inl e, q, W) \<Rightarrow> Done ((0, Some e), q, W)
         | Done (Inr res, q, W) \<Rightarrow>
             (case RowsAffected res of
                (n, Some e) \<Rightarrow> Done ((0, Some e), q, W)
              | (n, None) \<Rightarrow> Done ((n, None), q, W)))
      else if conn (fieldsOf q) = None then concurrently ctx q dest W
      else scanAndCountSeq C A R db ctx q dest W)"

definition selectExists ::
  "'c collab \<Rightarrow> adapter \<Rightarrow> renderer \<Rightarrow> ('c, 'w) DB \<Rightarrow> 'c \<Rightarrow> SelectQuery \<Rightarrow> 'w world
     \<Rightarrow> ((bool \<times> error option) \<times> SelectQuery \<times> 'w world) outcome" where
  "selectExists C A R db ctx q W =
     (case selectExistsQuery_AppendQuery R (db_fmter db) (setCommentFromContext C ctx q) [] of
        (Inl e, q) \<Rightarrow> Done ((False, Some e), q, W)
      | (Inr query, q) \<Rightarrow>
     (case beforeQuery db ctx SelectExistsApp query [] W of
        ((ctx, event), W) \<Rightarrow>
     (case afterQuery db ctx event None (snd (dbQueryRowBool A (issued W) query))
             (issue (conn (fieldsOf q)) (ExistsStmt query) W) of
        Panic \<Rightarrow> Panic
      | Done (event, W') \<Rightarrow> Done (dbQueryRowBool A (issued W) query, q, W'))))"

definition whereExists ::
  "'c collab \<Rightarrow> adapter \<Rightarrow> renderer \<Rightarrow> ('c, 'w) DB \<Rightarrow> 'c \<Rightarrow> SelectQuery \<Rightarrow> 'w world
     \<Rightarrow> ((bool \<times> error option) \<times> SelectQuery \<times> 'w world) outcome" where
  "whereExists C A R db ctx q W =
     (case whereExistsQuery_AppendQuery R (db_fmter db) (setCommentFromContext C ctx q) [] of
        (Inl e, q) \<Rightarrow> Done ((False, Some e), q, W)
      | (Inr query, q) \<Rightarrow>
     (case exec A q query W of
        (Inl e, W) \<Rightarrow> Done ((False, Some e), q, W)
      | (Inr res, W) \<Rightarrow>
     (case RowsAffected res of
        (n, Some e) \<Rightarrow> Done ((False, Some e), q, W)
      | (n, None) \<Rightarrow> Done ((n = 1, None), q, W))))"

definition Exists ::
  "'c collab \<Rightarrow> adapter \<Rightarrow> renderer \<Rightarrow> ('c, 'w) DB \<Rightarrow> 'c \<Rightarrow> SelectQuery \<Rightarrow> 'w world
     \<Rightarrow> ((bool \<times> error option) \<times> SelectQuery \<times> 'w world) outcome" where
  "Exists C A R db ctx q W =
     (case err (fieldsOf q) of
        Some e \<Rightarrow> Done ((False, Some e), q, W)
      | None \<Rightarrow>
          if hasFeature db SelectExists then selectExists C A R db ctx q W
          else whereExists C A R db ctx q W)"

text \<open>Kinds of statements in the log: follow-up statements of relations, count statements.\<close>

fun isFollowUp :: "stmt \<Rightarrow> bool" where
  "isFollowUp (SelectManyStmt n) = True"
| "isFollowUp (SelectM2MStmt n) = True"
| "isFollowUp s = False"



section \<open>Collaborators for examples\<close>

text \<open>
  A renderer in the form the spec shows (\<open>SELECT * FROM "users" WHERE (age > 18)\<close>): a
  fragment renders as its text, filters as \<open>WHERE (a) AND (b)\<close> with each fragment's own
  separator, tables as a \<open>FROM\<close> list, an inline join as \<open>LEFT JOIN\<close> and its name, a comment
  as a leading \<open>/* ... */\<close> block; common table expressions, index hints, ordering and
  limits render as nothing.
\<close>

fun whereItems :: "nat \<Rightarrow> QueryWithSep list \<Rightarrow> bytes" where
  "whereItems i [] = []"
| "whereItems i (w # ws) =
     (if i > 0 then Sep w else []) @ ''('' @ Query w @ '')'' @ whereItems (i + 1) ws"

fun commaList :: "bytes list \<Rightarrow> bytes" where
  "commaList [] = []"
| "commaList [x] = x"
| "commaList (x # y # ys) = x @ '', '' @ commaList (y # ys)"

definition plainRenderer :: renderer where
  "plainRenderer =
     \<lparr> appendComment = (\<lambda>c. if c = [] then [] else ''/* '' @ c @ '' */ ''),
       appendWith = (\<lambda>fmter q. Inr []),
       appendFragment = (\<lambda>fmter q fr. Inr (Query fr)),
       hasTables = (\<lambda>q. length (tables (fieldsOf q)) > 0),
       appendTablesWithAlias = (\<lambda>fmter q. Inr (commaList (map Query (tables (fieldsOf q))))),
       appendIndexHints = (\<lambda>fmter q. Inr []),
       appendHasOneJoin = (\<lambda>fmter q j. Inr (''LEFT JOIN '' @ jName j)),
       appendWhere = (\<lambda>fmter q. Inr (if wheres (fieldsOf q) = [] then []
                                      else '' WHERE '' @ whereItems 0 (wheres (fieldsOf q)))),
       appendOrder = (\<lambda>fmter q. Inr []),
       appendLimitOffset = (\<lambda>fmter q. Inr []),
       AppendString = (\<lambda>s. [CHR 0x27] @ s @ [CHR 0x27]),
       appendTableColumns = (\<lambda>alias fs. commaList (map (\<lambda>f. alias @ ''.'' @ SQLName f) fs)),
       appendAlias = (\<lambda>fmter j. jName j),
       appendAliasColumn = (\<lambda>fmter j n. jName j @ ''__'' @ n) \<rparr>"

definition pgFormatter :: formatter where
  "pgFormatter = \<lparr> fmtDialect = PG, IsNop = False \<rparr>"

text \<open>
  Model collaborators with no hooks and no context comment, a database that answers every
  statement with "\<open>n\<close> rows affected" and every count with \<open>n\<close>, and two dialects that
  differ in the native exists capability only.
\<close>

definition plainCollab :: "unit collab" where
  "plainCollab =
     \<lparr> getModel = (\<lambda>q dest. if length dest > 0 then Inr OtherModel
                             else (case model (fieldsOf q) of None \<Rightarrow> Inl ErrNilModel
                                   | Some m \<Rightarrow> Inr m)),
       beforeAppendModel = (\<lambda>q. None),
       contextComment = (\<lambda>ctx. None),
       BeforeSelectHook = (\<lambda>t. None),
       AfterSelectHook = (\<lambda>t. None) \<rparr>"

definition rowsAdapter :: "int \<Rightarrow> adapter" where
  "rowsAdapter n =
     \<lparr> dbScan = (\<lambda>h query m. Inr \<lparr> RowsAffected = (n, None) \<rparr>),
       dbExec = (\<lambda>h query. Inr \<lparr> RowsAffected = (n, None) \<rparr>),
       dbQueryRows = (\<lambda>h query. None),
       dbQueryRowInt = (\<lambda>h query. (n, None)),
       dbQueryRowBool = (\<lambda>h query. (n > 0, None)),
       dbSelectMany = (\<lambda>h j. None),
       dbSelectM2M = (\<lambda>h j. None) \<rparr>"

definition plainDB :: "feature set \<Rightarrow> (unit, unit) DB" where
  "plainDB fs = \<lparr> queryHooks = [], features = fs, db_fmter = pgFormatter \<rparr>"

text \<open>
  A model for examples: table \<open>users\<close> declares a has-one relation \<open>Profile\<close>, which has a
  condition, and a has-many relation \<open>Posts\<close>.
\<close>

definition usersTable :: Table where
  "usersTable =
     \<lparr> TypeName = ''User'', Fields = [\<lparr> fieldName = ''ID'', SQLName = ''id'' \<rparr>],
       FieldMap = [''id'' \<mapsto> \<lparr> fieldName = ''ID'', SQLName = ''id'' \<rparr>], SQLAlias = ''u'' \<rparr>"

definition profilesTable :: Table where
  "profilesTable =
     \<lparr> TypeName = ''Profile'', Fields = [\<lparr> fieldName = ''ID'', SQLName = ''id'' \<rparr>],
       FieldMap = [''id'' \<mapsto> \<lparr> fieldName = ''ID'', SQLName = ''id'' \<rparr>], SQLAlias = ''p'' \<rparr>"

definition usersModel :: TableModel where
  "usersModel =
     \<lparr> tmRelations =
         [''Profile'' \<mapsto> (\<lparr> relType = HasOneRelation, Condition = [''kind = 1''] \<rparr>, profilesTable),
          ''Posts'' \<mapsto> (\<lparr> relType = HasManyRelation, Condition = [] \<rparr>, profilesTable)],
       tmJoins = [] \<rparr>"

definition usersQuery :: SelectQuery where
  "usersQuery =
     modify (\<lambda>f. f\<lparr>table := Some usersTable, model := Some QueryTableModel,
                   tableModel := Some usersModel\<rparr>) NewSelectQuery"

text \<open>
  The example query with its relation \<open>Profile\<close> joined, and with its relation \<open>Posts\<close>
  joined.
\<close>

definition profileQuery :: SelectQuery where
  "profileQuery = (case Relation ''Profile'' [] usersQuery of Done q \<Rightarrow> q | Panic \<Rightarrow> usersQuery)"

definition postsQuery :: SelectQuery where
  "postsQuery = (case Relation ''Posts'' [] usersQuery of Done q \<Rightarrow> q | Panic \<Rightarrow> usersQuery)"

text \<open>
  A query that matches no row, a query on which \<open>JoinOn\<close> recorded an error because it
  has no join, and the example query after one render.
\<close>

definition zeroRowsQuery :: SelectQuery where
  "zeroRowsQuery = Where ''1 = 0'' [] NewSelectQuery"

definition erredQuery :: SelectQuery where
  "erredQuery = JoinOn ''a.id = b.id'' [] NewSelectQuery"

definition renderedOnce :: SelectQuery where
  "renderedOnce =
     (case String plainRenderer pgFormatter profileQuery of
        Done (s, q) \<Rightarrow> q
      | Panic \<Rightarrow> profileQuery)"

section \<open>Theorems: unsigned integers\<close>

lemma sint_as_uint:
  fixes n :: "'a::len word"
  shows "sint n = (if uint n < 2 ^ (LENGTH('a) - 1) then uint n else uint n - 2 ^ LENGTH('a))"
proof -
  obtain m where m: "LENGTH('a) = Suc m" by (cases "LENGTH('a)") simp_all
  have lo: "0 \<le> uint n" by simp
  have hi: "uint n < 2 ^ Suc m" using uint_bounded [of n] m by simp
  have s: "sint n = (uint n + 2 ^ m) mod 2 ^ Suc m - 2 ^ m"
    by (simp add: sint_uint m signed_take_bit_eq_take_bit_shift take_bit_eq_mod)
  have goal: "sint n = (if uint n < 2 ^ m then uint n else uint n - 2 ^ Suc m)"
  proof (cases "uint n < 2 ^ m")
    case True
    then have "(uint n + 2 ^ m) mod 2 ^ Suc m = uint n + 2 ^ m"
      using lo by (intro mod_pos_pos_trivial) simp_all
    with True s show ?thesis by simp
  next
    case False
    define k where "k = uint n - 2 ^ m"
    have k0: "0 \<le> k" and k1: "k < 2 ^ Suc m" using False hi by (simp_all add: k_def)
    have "uint n + 2 ^ m = k + 2 ^ Suc m" by (simp add: k_def)
    then have "(uint n + 2 ^ m) mod 2 ^ Suc m = (k + 2 ^ Suc m) mod 2 ^ Suc m" by simp
    also have "\<dots> = k mod 2 ^ Suc m" by (rule mod_add_self2)
    also have "\<dots> = k" using k0 k1 by (rule mod_pos_pos_trivial)
    finally have "sint n = k - 2 ^ m" using s by simp
    with False show ?thesis by (simp add: k_def)
  qed
  show ?thesis unfolding m using goal by simp
qed

lemma sint_as_unat:
  fixes n :: "'a::len word"
  shows "sint n =
    (if unat n < 2 ^ (LENGTH('a) - 1) then int (unat n) else int (unat n) - 2 ^ LENGTH('a))"
proof -
  have "(unat n < 2 ^ (LENGTH('a) - 1)) = (int (unat n) < int (2 ^ (LENGTH('a) - 1)))"
    by (rule of_nat_less_iff [symmetric])
  also have "\<dots> = (uint n < 2 ^ (LENGTH('a) - 1))"
    by simp
  finally have eq: "(unat n < 2 ^ (LENGTH('a) - 1)) = (uint n < 2 ^ (LENGTH('a) - 1))" .
  show ?thesis unfolding eq using sint_as_uint [of n] by simp
qed

lemma sint_scast_32_64: "sint (scast (n :: 32 word) :: 64 word) = sint n"
  by (rule sint_up_scast) (simp add: is_up)

lemma AppendUint32_value:
  "AppendUint32 b n =
     b @ formatInt (if unat n < 2 ^ 31 then int (unat n) else int (unat n) - 2 ^ 32)"
  using sint_as_unat [of n]
  by (simp add: AppendUint32_def AppendInt_def sint_scast_32_64)

lemma AppendUint64_value:
  "AppendUint64 b n =
     b @ formatInt (if unat n < 2 ^ 63 then int (unat n) else int (unat n) - 2 ^ 64)"
  using sint_as_unat [of n]
  by (simp add: AppendUint64_def AppendInt_def)

lemma nat_neg_diff: "nat (- (int k - int N)) = N - k"
  by simp

lemma unat_32_bound: "unat (n :: 32 word) < 2 ^ 32"
  using unsigned_less [of n] by simp

lemma unat_64_bound: "unat (n :: 64 word) < 2 ^ 64"
  using unsigned_less [of n] by simp

text \<open>
  C10. For every 32-bit unsigned \<open>n\<close>, \<open>AppendUint32\<close> appends the decimal text of \<open>n\<close> read
  as a signed 32-bit two's-complement integer: the value \<open>n\<close> itself below \<open>2^31\<close>, and
  \<open>n - 2^32\<close> from \<open>2^31\<close> on, which is negative and so rendered with a minus sign
  (\<open>4294967295\<close> gives \<open>-1\<close>). \<open>AppendUint64\<close> does the same with 64 bits.
\<close>

theorem pgdialect_AppendUint_signed:
  "AppendUint32 b n =
     b @ formatInt (if unat n < 2 ^ 31 then int (unat n) else int (unat n) - 2 ^ 32)
   \<and> (2 ^ 31 \<le> unat n \<longrightarrow> AppendUint32 b n = b @ CHR ''-'' # digits (2 ^ 32 - unat n))
   \<and> AppendUint32 b 4294967295 = b @ ''-1''
   \<and> AppendUint64 b m =
     b @ formatInt (if unat m < 2 ^ 63 then int (unat m) else int (unat m) - 2 ^ 64)
   \<and> (2 ^ 63 \<le> unat m \<longrightarrow> AppendUint64 b m = b @ CHR ''-'' # digits (2 ^ 64 - unat m))
   \<and> AppendUint64 b 18446744073709551615 = b @ ''-1''"
proof (intro conjI impI)
  show "AppendUint32 b n =
     b @ formatInt (if unat n < 2 ^ 31 then int (unat n) else int (unat n) - 2 ^ 32)"
    by (rule AppendUint32_value)
  show "AppendUint64 b m =
     b @ formatInt (if unat m < 2 ^ 63 then int (unat m) else int (unat m) - 2 ^ 64)"
    by (rule AppendUint64_value)
  show "AppendUint32 b 4294967295 = b @ ''-1''"
    by (simp add: AppendUint32_def AppendInt_def formatInt_def digits.simps)
  show "AppendUint64 b 18446744073709551615 = b @ ''-1''"
    by (simp add: AppendUint64_def AppendInt_def formatInt_def digits.simps)
next
  assume big: "2 ^ 31 \<le> unat n"
  have neg: "\<not> unat n < 2 ^ 31" using big by simp
  have mag: "nat (- (int (unat n) - 2 ^ 32)) = 2 ^ 32 - unat n"
    using nat_neg_diff [of "unat n" "2 ^ 32"] by (simp only: of_nat_power of_nat_numeral)
  have "int (unat n) < int (2 ^ 32)"
    using unat_32_bound [of n] by (simp only: of_nat_less_iff)
  then have lt: "int (unat n) - 2 ^ 32 < 0"
    by (simp only: of_nat_power of_nat_numeral diff_less_0_iff_less)
  show "AppendUint32 b n = b @ CHR ''-'' # digits (2 ^ 32 - unat n)"
    unfolding AppendUint32_value formatInt_def if_not_P [OF neg] if_P [OF lt] mag ..
next
  assume big: "2 ^ 63 \<le> unat m"
  have neg: "\<not> unat m < 2 ^ 63" using big by simp
  have mag: "nat (- (int (unat m) - 2 ^ 64)) = 2 ^ 64 - unat m"
    using nat_neg_diff [of "unat m" "2 ^ 64"] by (simp only: of_nat_power of_nat_numeral)
  have "int (unat m) < int (2 ^ 64)"
    using unat_64_bound [of m] by (simp only: of_nat_less_iff)
  then have lt: "int (unat m) - 2 ^ 64 < 0"
    by (simp only: of_nat_power of_nat_numeral diff_less_0_iff_less)
  show "AppendUint64 b m = b @ CHR ''-'' # digits (2 ^ 64 - unat m)"
    unfolding AppendUint64_value formatInt_def if_not_P [OF neg] if_P [OF lt] mag ..
qed

theorem pgdialect_AppendUint_signed_witness:
  "(2 :: nat) ^ 31 \<le> unat (3000000000 :: 32 word)
   \<and> AppendUint32 ''n = '' 3000000000 = ''n = -1294967296''
   \<and> (2 :: nat) ^ 63 \<le> unat (18446744073709551614 :: 64 word)
   \<and> AppendUint64 ''n = '' 18446744073709551614 = ''n = -2''"
proof -
  have h32: "(2 :: nat) ^ 31 \<le> unat (3000000000 :: 32 word)" by simp
  have h64: "(2 :: nat) ^ 63 \<le> unat (18446744073709551614 :: 64 word)" by simp
  have d32: "digits (2 ^ 32 - unat (3000000000 :: 32 word)) = ''1294967296''"
    by (simp add: digits.simps)
  have d64: "digits (2 ^ 64 - unat (18446744073709551614 :: 64 word)) = ''2''"
    by (simp add: digits.simps)
  note T = pgdialect_AppendUint_signed [of "''n = ''" 3000000000 18446744073709551614]
  have a32: "AppendUint32 ''n = '' 3000000000 =
      ''n = '' @ CHR ''-'' # digits (2 ^ 32 - unat (3000000000 :: 32 word))"
    using T h32 by blast
  have a64: "AppendUint64 ''n = '' 18446744073709551614 =
      ''n = '' @ CHR ''-'' # digits (2 ^ 64 - unat (18446744073709551614 :: 64 word))"
    using T h64 by blast
  show ?thesis using a32 a64 h32 h64 d32 d64 by simp
qed

section \<open>Theorems: model-level hooks over a batch\<close>

lemma hookLoop_invokeAll:
  "hookLoop addr ctx ptr hook acc vs s =
     (case invokeAll hook ctx (map (\<lambda>v. if \<not> ptr then addr v else v) vs) s of
        Panic \<Rightarrow> Panic
      | Done (errs, s') \<Rightarrow>
          Done (case acc of None \<Rightarrow> firstError errs | Some e \<Rightarrow> Some e, s'))"
proof (induction vs arbitrary: acc s)
  case Nil
  show ?case by (cases acc) simp_all
next
  case (Cons v vs)
  show ?case
  proof (cases "hook ctx (if \<not> ptr then addr v else v) s")
    case Panic
    then show ?thesis by simp
  next
    case (Done r)
    obtain er s' where r: "r = (er, s')" by (cases r)
    show ?thesis
      using Done r Cons.IH
      by (cases er; cases acc; cases "invokeAll hook ctx (map (\<lambda>v. if \<not> ptr then addr v else v) vs) s'")
         (auto simp: Let_def split: prod.splits)
  qed
qed

lemma invokeAll_length:
  "invokeAll hook ctx vs s = Done (errs, s') \<Longrightarrow> length errs = length vs"
proof (induction vs arbitrary: s errs)
  case Nil
  then show ?case by simp
next
  case (Cons v vs)
  then show ?case
    by (auto split: outcome.splits prod.splits)
qed

lemma callHookSlice_all:
  "callHookSlice addr ctx (Slice vs) ptr hook s =
     firstOf (invokeAll hook ctx (map (\<lambda>v. if \<not> ptr then addr v else v) vs) s)"
  by (simp add: callHookSlice_def hookLoop_invokeAll firstOf_def split: outcome.splits)

lemma callHookSlice2_all:
  "callHookSlice2 addr ctx (Slice vs) ptr hook s =
     firstOf (invokeAll hook ctx (map (\<lambda>v. if \<not> ptr then addr v else v) vs) s)"
  by (simp add: callHookSlice2_def hookLoop_invokeAll firstOf_def split: outcome.splits)

text \<open>
  C2, as the code has it. For a batch of entities every batch hook, the before-insert,
  before-update and before-delete hooks as much as the after-hooks, is invoked once per
  entity, in order, over the whole batch whatever the earlier calls returned, and the first
  non-nil error is what the batch call returns: each batch call equals \<open>invokeAll\<close> followed
  by \<open>firstError\<close>, and \<open>invokeAll\<close> yields one result per entity.
\<close>

theorem batch_hooks_run_whole_batch:
  "callBeforeInsertHookSlice M addr ctx (Slice vs) ptr s =
     firstOf (invokeAll (callBeforeInsertHook M) ctx (map (\<lambda>v. if \<not> ptr then addr v else v) vs) s)
   \<and> callBeforeUpdateHookSlice M addr ctx (Slice vs) ptr s =
     firstOf (invokeAll (callBeforeUpdateHook M) ctx (map (\<lambda>v. if \<not> ptr then addr v else v) vs) s)
   \<and> callBeforeDeleteHookSlice M addr ctx (Slice vs) ptr s =
     firstOf (invokeAll (callBeforeDeleteHook M) ctx (map (\<lambda>v. if \<not> ptr then addr v else v) vs) s)
   \<and> callAfterInsertHookSlice M addr ctx (Slice vs) ptr s =
     firstOf (invokeAll (callAfterInsertHook M) ctx (map (\<lambda>v. if \<not> ptr then addr v else v) vs) s)
   \<and> callAfterUpdateHookSlice M addr ctx (Slice vs) ptr s =
     firstOf (invokeAll (callAfterUpdateHook M) ctx (map (\<lambda>v. if \<not> ptr then addr v else v) vs) s)
   \<and> callAfterDeleteHookSlice M addr ctx (Slice vs) ptr s =
     firstOf (invokeAll (callAfterDeleteHook M) ctx (map (\<lambda>v. if \<not> ptr then addr v else v) vs) s)
   \<and> callAfterSelectHookSlice M addr ctx (Slice vs) ptr s =
     firstOf (invokeAll (callAfterSelectHook M) ctx (map (\<lambda>v. if \<not> ptr then addr v else v) vs) s)
   \<and> (invokeAll hook ctx (map (\<lambda>v. if \<not> ptr then addr v else v) vs) s = Done (errs, s')
        \<longrightarrow> length errs = length vs
          \<and> callHookSlice addr ctx (Slice vs) ptr hook s = Done (firstError errs, s')
          \<and> callHookSlice2 addr ctx (Slice vs) ptr hook s = Done (firstError errs, s'))"
proof (intro conjI impI)
  assume run: "invokeAll hook ctx (map (\<lambda>v. if \<not> ptr then addr v else v) vs) s = Done (errs, s')"
  show "length errs = length vs"
    using invokeAll_length [OF run] by simp
  show "callHookSlice addr ctx (Slice vs) ptr hook s = Done (firstError errs, s')"
    by (simp add: callHookSlice_all run firstOf_def)
  show "callHookSlice2 addr ctx (Slice vs) ptr hook s = Done (firstError errs, s')"
    by (simp add: callHookSlice2_all run firstOf_def)
qed (simp_all only: callBeforeInsertHookSlice_def callBeforeUpdateHookSlice_def
      callBeforeDeleteHookSlice_def callAfterInsertHookSlice_def callAfterUpdateHookSlice_def
      callAfterDeleteHookSlice_def callAfterSelectHookSlice_def callHookSlice_all
      callHookSlice2_all)

lemma logging_run:
  "invokeAll (callBeforeDeleteHook (loggingHooks {2})) () (map (\<lambda>v. if \<not> True then id v else v) [1, 2, 3]) []
     = Done ([None, Some (Error ''hook failed''), None], [1, 2, 3])"
  by (simp add: callBeforeDeleteHook_def callMethod_def loggingHooks_def loggingMethod_def)

theorem batch_hooks_run_whole_batch_witness:
  "invokeAll (callBeforeDeleteHook (loggingHooks {2})) () (map (\<lambda>v. if \<not> True then id v else v) [1, 2, 3]) []
     = Done ([None, Some (Error ''hook failed''), None], [1, 2, 3])
   \<and> callHookSlice id () (Slice [1, 2, 3]) True (callBeforeDeleteHook (loggingHooks {2})) []
     = Done (Some (Error ''hook failed''), [1, 2, 3])
   \<and> callHookSlice2 id () (Slice [1, 2, 3]) True (callBeforeDeleteHook (loggingHooks {2})) []
     = Done (Some (Error ''hook failed''), [1, 2, 3])"
  using batch_hooks_run_whole_batch
          [of "loggingHooks {2}" id "()" "[1, 2, 3]" True "[]" "callBeforeDeleteHook (loggingHooks {2})"
              "[None, Some (Error ''hook failed''), None]" "[1, 2, 3]"]
        logging_run
  by simp

text \<open>
  C2 as stated fails: a before-insert batch hook does not stop at the first error. On the
  batch \<open>[1, 2, 3]\<close> whose first entity's hook fails, the hooks of entities 2 and 3 still
  run; stopping at the first error would have run the hook of entity 1 only.
\<close>

theorem before_hooks_stop_counterexample:
  "callBeforeInsertHookSlice (loggingHooks {1}) id () (Slice [1, 2, 3]) True []
     = Done (Some (Error ''hook failed''), [1, 2, 3])
   \<and> invokeUntilError (callBeforeInsertHook (loggingHooks {1})) () [1, 2, 3] []
     = Done (Some (Error ''hook failed''), [1])
   \<and> callBeforeInsertHookSlice (loggingHooks {1}) id () (Slice [1, 2, 3]) True []
     \<noteq> invokeUntilError (callBeforeInsertHook (loggingHooks {1})) () [1, 2, 3] []"
  by (simp add: callBeforeInsertHookSlice_def callHookSlice_def callBeforeInsertHook_def
        callMethod_def loggingHooks_def loggingMethod_def)

section \<open>Theorems: statement-level hooks and counters\<close>

lemma beforeHooks_foldl:
  "beforeHooks hs ctx ev w = foldl (\<lambda>(c, e, w) h. BeforeQuery h c e w) (ctx, ev, w) hs"
proof (induction hs arbitrary: ctx ev w)
  case Nil
  show ?case by simp
next
  case (Cons h hs)
  show ?case by (cases "BeforeQuery h ctx ev w") (simp add: Cons.IH)
qed

lemma afterQueryFromIndex_take:
  "k \<le> length (queryHooks db) \<Longrightarrow>
   afterQueryFromIndex db ctx ev (int k - 1) w =
     Done (foldl (\<lambda>(e, w) h. AfterQuery h ctx e w) (ev, w) (rev (take k (queryHooks db))))"
proof (induction k arbitrary: ev w)
  case 0
  show ?case by (simp add: afterQueryFromIndex.simps)
next
  case (Suc k)
  then have k: "k < length (queryHooks db)" by simp
  obtain ev' w' where step: "AfterQuery (queryHooks db ! k) ctx ev w = (ev', w')"
    by (cases "AfterQuery (queryHooks db ! k) ctx ev w")
  have "afterQueryFromIndex db ctx ev (int (Suc k) - 1) w = afterQueryFromIndex db ctx ev' (int k - 1) w'"
    using k step by (subst afterQueryFromIndex.simps) simp
  also have "\<dots> = Done (foldl (\<lambda>(e, w) h. AfterQuery h ctx e w) (ev', w') (rev (take k (queryHooks db))))"
    using Suc.IH [of ev' w'] k by simp
  finally show ?case
    using k step by (simp add: take_Suc_conv_app_nth)
qed

lemma afterQueryFromIndex_all:
  "afterQueryFromIndex db ctx ev (int (length (queryHooks db)) - 1) w =
     Done (foldl (\<lambda>(e, w) h. AfterQuery h ctx e w) (ev, w) (rev (queryHooks db)))"
  using afterQueryFromIndex_take [of "length (queryHooks db)" db ctx ev w] by simp

text \<open>
  C6. With hooks registered in the order \<open>[A, B, C]\<close>, the before phase calls
  \<open>BeforeQuery\<close> of A, B, C in that order, each on the context the one before returned, and
  the after phase calls \<open>AfterQuery\<close> of C, B, A, in reverse order, starting from the event
  with the final result and error stored in it.
\<close>

theorem statement_hooks_order:
  assumes "queryHooks db \<noteq> []"
  shows "beforeQuery db ctx queryApp query queryArgs W =
           (case foldl (\<lambda>(c, e, w) h. BeforeQuery h c e w)
                   (ctx,
                    \<lparr> evQueryAppender = queryApp, evQuery = query, evQueryArgs = queryArgs,
                      evStartTime = now W, evResult = None, evErr = None, evStash = None \<rparr>,
                    hookw W)
                   (queryHooks db) of
              (c, e, w) \<Rightarrow> ((c, Some e), W\<lparr>Queries := Queries W + 1, hookw := w\<rparr>))
         \<and> afterQuery db ctx (Some ev) res er W =
           (case foldl (\<lambda>(e, w) h. AfterQuery h ctx e w)
                   (ev\<lparr>evResult := res, evErr := er\<rparr>, hookw W)
                   (rev (queryHooks db)) of
              (e, w) \<Rightarrow> Done (Some e, (countError er W)\<lparr>hookw := w\<rparr>))"
proof
  show "beforeQuery db ctx queryApp query queryArgs W =
           (case foldl (\<lambda>(c, e, w) h. BeforeQuery h c e w)
                   (ctx,
                    \<lparr> evQueryAppender = queryApp, evQuery = query, evQueryArgs = queryArgs,
                      evStartTime = now W, evResult = None, evErr = None, evStash = None \<rparr>,
                    hookw W)
                   (queryHooks db) of
              (c, e, w) \<Rightarrow> ((c, Some e), W\<lparr>Queries := Queries W + 1, hookw := w\<rparr>))"
    using assms by (simp add: beforeQuery_def Let_def beforeHooks_foldl split: prod.splits)
  have hw: "hookw (countError er W) = hookw W"
    by (simp add: countError_def split: option.splits)
  show "afterQuery db ctx (Some ev) res er W =
           (case foldl (\<lambda>(e, w) h. AfterQuery h ctx e w)
                   (ev\<lparr>evResult := res, evErr := er\<rparr>, hookw W)
                   (rev (queryHooks db)) of
              (e, w) \<Rightarrow> Done (Some e, (countError er W)\<lparr>hookw := w\<rparr>))"
    by (simp add: afterQuery_def Let_def afterQueryFromIndex_all hw split: prod.splits)
qed

theorem statement_hooks_order_witness:
  "queryHooks (tracingDB [''A'', ''B'', ''C'']) \<noteq> []
   \<and> fst (fst (beforeQuery (tracingDB [''A'', ''B'', ''C'']) [] SelectApp ''SELECT 1'' [] (world0 []))) =
       [''A'', ''B'', ''C'']
   \<and> hookw (snd (beforeQuery (tracingDB [''A'', ''B'', ''C'']) [] SelectApp ''SELECT 1'' [] (world0 []))) =
       [(''BeforeQuery'', ''A'', None), (''BeforeQuery'', ''B'', None), (''BeforeQuery'', ''C'', None)]
   \<and> (\<exists>e W'. afterQuery (tracingDB [''A'', ''B'', ''C'']) []
          (Some \<lparr> evQueryAppender = SelectApp, evQuery = ''SELECT 1'', evQueryArgs = [],
                  evStartTime = 0, evResult = None, evErr = None, evStash = None \<rparr>)
          None (Some (Error ''timeout'')) (world0 []) = Done (Some e, W')
        \<and> evErr e = Some (Error ''timeout'')
        \<and> hookw W' =
            [(''AfterQuery'', ''C'', Some (Error ''timeout'')),
             (''AfterQuery'', ''B'', Some (Error ''timeout'')),
             (''AfterQuery'', ''A'', Some (Error ''timeout''))])"
proof -
  have ne: "queryHooks (tracingDB [''A'', ''B'', ''C'']) \<noteq> []"
    by (simp add: tracingDB_def)
  note T = statement_hooks_order [OF ne, of "[]" SelectApp "''SELECT 1''" "[]" "world0 []"
      "\<lparr> evQueryAppender = SelectApp, evQuery = ''SELECT 1'', evQueryArgs = [],
         evStartTime = 0, evResult = None, evErr = None, evStash = None \<rparr>"
      None "Some (Error ''timeout'')"]
  show ?thesis
    using ne T
    by (simp add: tracingDB_def tracingHook_def world0_def countError_def)
qed




section \<open>Theorems: rendering only appends\<close>

lemma ebind_Inr: "ebind m f = Inr y \<longleftrightarrow> (\<exists>x. m = Inr x \<and> f x = Inr y)"
  by (cases m) (simp_all add: ebind_def)

lemma appendTo_Inr: "appendTo b r = Inr b' \<longleftrightarrow> (\<exists>t. r = Inr t \<and> b' = b @ t)"
  by (cases r) (auto simp: appendTo_def)

lemma prefix_append_trans: "prefix (b @ t) b' \<Longrightarrow> prefix b b'"
  by (rule append_prefixD)

lemma appendEach_prefix:
  assumes "\<And>x b b'. f x b = Inr b' \<Longrightarrow> prefix b b'"
  shows "appendEach f sep i xs b = Inr b' \<Longrightarrow> prefix b b'"
proof (induction xs arbitrary: i b)
  case Nil
  then show ?case by simp
next
  case (Cons x xs)
  from Cons.prems obtain b1 where
    1: "f x (if i > 0 then b @ sep x else b) = Inr b1" and 2: "appendEach f sep (i + 1) xs b1 = Inr b'"
    by (auto split: sum.splits)
  have "prefix (if i > 0 then b @ sep x else b) b1" using assms [OF 1] .
  then have "prefix b b1" by (auto dest: append_prefixD split: if_splits)
  moreover have "prefix b1 b'" using Cons.IH [OF 2] .
  ultimately show ?case by (rule prefix_order.trans)
qed

lemma forEachInlineRelJoins_invariant_aux:
  shows "\<forall>j st j' st'. P st \<longrightarrow> fn j st = Inr (j', st') \<longrightarrow> P st' \<Longrightarrow> P st \<Longrightarrow>
         forEachInlineRelJoinStep fn j st = Inr (j', st') \<Longrightarrow> P st'"
    and "\<forall>j st j' st'. P st \<longrightarrow> fn j st = Inr (j', st') \<longrightarrow> P st' \<Longrightarrow> P st \<Longrightarrow>
         forEachInlineRelJoins fn js st = Inr (js', st') \<Longrightarrow> P st'"
proof (induction fn j st and fn js st arbitrary: j' st' and js' st'
    rule: forEachInlineRelJoinStep_forEachInlineRelJoins.induct)
  case (1 fn r n t a c ad sub st)
  note step = "1.prems"(1)
  show ?case
  proof (cases "relType r = HasOneRelation \<or> relType r = BelongsToRelation")
    case True
    with "1.prems"(3) obtain j1 st1 sub' where
      f: "fn (RelationJoin r n t a c ad sub) st = Inr (j1, st1)" and
      s: "forEachInlineRelJoins fn sub st1 = Inr (sub', st')"
      by (auto split: sum.splits prod.splits)
    have "P st1" using step "1.prems"(2) f by blast
    then show ?thesis using "1.IH" True f s step by blast
  next
    case False
    with "1.prems" show ?thesis by auto
  qed
next
  case (2 fn st)
  then show ?case by simp
next
  case (3 fn j js st)
  note step = "3.prems"(1)
  from "3.prems"(3) obtain j1 st1 js1 where
    f: "forEachInlineRelJoinStep fn j st = Inr (j1, st1)" and
    s: "forEachInlineRelJoins fn js st1 = Inr (js1, st')"
    by (auto split: sum.splits prod.splits)
  have "P st1" using "3.IH"(1) step "3.prems"(2) f by blast
  then show ?case using "3.IH"(2) f s step by blast
qed

lemma forEachInlineRelJoin_invariant:
  assumes "\<And>j st j' st'. P st \<Longrightarrow> fn j st = Inr (j', st') \<Longrightarrow> P st'"
    and "P st" and "forEachInlineRelJoin fn q st = Inr (js', st')"
  shows "P st'"
proof (cases "tableModel (fieldsOf q)")
  case None
  with assms(2,3) show ?thesis by (simp add: forEachInlineRelJoin_def)
next
  case (Some tm)
  with assms(3) have eq: "forEachInlineRelJoins fn (tmJoins tm) st = Inr (js', st')"
    by (simp add: forEachInlineRelJoin_def)
  have all: "\<forall>j st j' st'. P st \<longrightarrow> fn j st = Inr (j', st') \<longrightarrow> P st'"
    using assms(1) by blast
  show ?thesis
    by (rule forEachInlineRelJoins_invariant_aux(2) [where P = P and fn = fn, OF all assms(2) eq])
qed

lemma appendInlineRelColumns_prefix:
  assumes h: "appendInlineRelColumns R fmter q b join = Inr b'"
  shows "prefix b b'"
proof (cases "jColumns join")
  case None
  with h have "appendEach
            (\<lambda>field b.
               Inr (b @ appendAlias R fmter join @ ''.'' @ SQLName field @ '' AS ''
                      @ appendAliasColumn R fmter join (fieldName field)))
            (\<lambda>_. '', '') 0 (Fields (jTable join)) b = Inr b'"
    by (simp add: appendInlineRelColumns_def)
  then show ?thesis by (rule appendEach_prefix [rotated]) auto
next
  case (Some cols)
  with h have "appendEach
            (\<lambda>col b.
               case (if Args col = None then FieldMap (jTable join) (Query col) else None) of
                 Some field \<Rightarrow>
                   Inr (b @ appendAlias R fmter join @ ''.'' @ SQLName field @ '' AS ''
                          @ appendAliasColumn R fmter join (fieldName field))
               | None \<Rightarrow> appendTo b (appendFragment R fmter q col))
            (\<lambda>_. '', '') 0 cols b = Inr b'"
    by (simp add: appendInlineRelColumns_def)
  then show ?thesis
    by (rule appendEach_prefix [rotated]) (auto simp: appendTo_Inr split: option.splits if_splits)
qed

lemma take_prefix_keep: "prefix p b \<Longrightarrow> length p \<le> n \<Longrightarrow> prefix p (take n b)"
  by (auto simp: prefix_def)

lemma TrimSuffix_prefix:
  "prefix p b \<Longrightarrow> length p + length suf \<le> length b \<Longrightarrow> prefix p (TrimSuffix b suf)"
  by (simp add: TrimSuffix_def take_prefix_keep)

lemma appendColumn_prefix: "appendColumn R fmter q col b = Inr b' \<Longrightarrow> prefix b b'"
  by (auto simp: appendColumn_def appendTo_Inr split: option.splits if_splits prod.splits)

lemma appendOwnColumns_prefix:
  assumes h: "appendOwnColumns R fmter q b = Inr b'"
  shows "prefix b b'"
proof (cases "columns (fieldsOf q)")
  case (Some cols)
  with h have "appendEach (appendColumn R fmter q) (\<lambda>_. '', '') 0 cols b = Inr b'"
    by (simp add: appendOwnColumns_def)
  then show ?thesis by (rule appendEach_prefix [rotated]) (rule appendColumn_prefix)
next
  case None
  with h show ?thesis
    by (auto simp: appendOwnColumns_def split: option.splits if_splits)
qed

lemma inlineRelColumnsStep_prefix:
  assumes "inlineRelColumnsStep R fmter q join st = Inr (j', st')"
  shows "prefix (fst st) (fst st')"
proof -
  obtain b start where st: "st = (b, start)" by (cases st)
  from assms obtain b2 where
    a: "appendInlineRelColumns R fmter q (if length b \<noteq> start then b @ '', '' else b) join = Inr b2"
    and r: "fst st' = b2"
    by (auto simp: inlineRelColumnsStep_def st Let_def ebind_Inr)
  have "prefix (if length b \<noteq> start then b @ '', '' else b) b2"
    using a by (rule appendInlineRelColumns_prefix)
  then have "prefix b b2" by (auto dest: append_prefixD split: if_splits)
  then show ?thesis by (simp add: st r)
qed

lemma appendColumns_prefix:
  assumes h: "appendColumns R fmter q b = Inr b'" and p: "prefix p b" and l: "length p + 2 \<le> length b"
  shows "prefix p b'"
proof -
  from h obtain b1 js b2 start' where
    own: "appendOwnColumns R fmter q b = Inr b1"
    and walk: "forEachInlineRelJoin (inlineRelColumnsStep R fmter q) q (b1, length b) = Inr (js, (b2, start'))"
    and res: "b' = TrimSuffix b2 '', ''"
    by (auto simp: appendColumns_def Let_def ebind_Inr split: prod.splits)
  have 1: "prefix b b1" using own by (rule appendOwnColumns_prefix)
  have "prefix b (fst (b2, start'))"
  proof (rule forEachInlineRelJoin_invariant [where P = "\<lambda>st. prefix b (fst st)", OF _ _ walk])
    show "prefix b (fst (b1, length b))" using 1 by simp
  next
    fix j st j' st'
    assume a: "prefix b (fst st)" and s: "inlineRelColumnsStep R fmter q j st = Inr (j', st')"
    show "prefix b (fst st')"
      using a inlineRelColumnsStep_prefix [OF s] by (rule prefix_order.trans)
  qed
  then have pb: "prefix b b2" by simp
  have pp: "prefix p b2" using p pb by (rule prefix_order.trans)
  have "length b \<le> length b2" using pb by (rule prefix_length_le)
  then have "length p + length '', '' \<le> length b2" using l by simp
  then show ?thesis unfolding res using pp by (intro TrimSuffix_prefix)
qed

lemma joinQuery_AppendQuery_prefix:
  assumes h: "joinQuery_AppendQuery R fmter q j b = Inr b'"
  shows "prefix b b'"
proof -
  from h obtain b1 where
    1: "appendTo (b @ '' '') (appendFragment R fmter q (joinFrag j)) = Inr b1"
    and 2: "(if length (joinOnConds j) > 0 then
               appendEach
                 (\<lambda>on b. ebind (appendTo (b @ ''('')
                                   (appendFragment R fmter q (QueryWithArgs.truncate on)))
                            (\<lambda>b. Inr (b @ '')'')))
                 Sep 0 (joinOnConds j) (b1 @ '' ON '')
             else Inr b1) = Inr b'"
    by (auto simp: joinQuery_AppendQuery_def ebind_Inr)
  have p1: "prefix b b1" using 1 by (auto simp: appendTo_Inr)
  have p2: "prefix b1 b'"
  proof (cases "length (joinOnConds j) > 0")
    case True
    with 2 have "appendEach
                 (\<lambda>on b. ebind (appendTo (b @ ''('')
                                   (appendFragment R fmter q (QueryWithArgs.truncate on)))
                            (\<lambda>b. Inr (b @ '')'')))
                 Sep 0 (joinOnConds j) (b1 @ '' ON '') = Inr b'" by simp
    then have "prefix (b1 @ '' ON '') b'"
      by (rule appendEach_prefix [rotated]) (auto simp: ebind_Inr appendTo_Inr)
    then show ?thesis by (rule append_prefixD)
  next
    case False
    with 2 show ?thesis by simp
  qed
  show ?thesis using p1 p2 by (rule prefix_order.trans)
qed

lemma appendInlineJoins_prefix:
  assumes h: "appendInlineJoins R fmter q b = Inr b'"
  shows "prefix b b'"
proof -
  from h obtain js where
    walk: "forEachInlineRelJoin
          (\<lambda>j b. ebind (appendTo (b @ '' '') (appendHasOneJoin R fmter q j)) (\<lambda>b. Inr (j, b)))
          q b = Inr (js, b')"
    by (auto simp: appendInlineJoins_def ebind_Inr split: prod.splits)
  show ?thesis
  proof (rule forEachInlineRelJoin_invariant [where P = "\<lambda>st. prefix b st", OF _ _ walk])
    show "prefix b b" by simp
  next
    fix j st j' st'
    assume a: "prefix b st"
      and s: "ebind (appendTo (st @ '' '') (appendHasOneJoin R fmter q j)) (\<lambda>b. Inr (j, b)) = Inr (j', st')"
    from s have "prefix st st'" by (auto simp: ebind_Inr appendTo_Inr)
    with a show "prefix b st'" by (rule prefix_order.trans)
  qed
qed

lemma appendJoins_prefix:
  assumes h: "appendJoins R fmter q b = Inr b'"
  shows "prefix b b'"
  using h [unfolded appendJoins_def]
  by (rule appendEach_prefix [rotated]) (rule joinQuery_AppendQuery_prefix)

lemma appendGroup_prefix:
  assumes h: "appendGroup R fmter q b = Inr b'"
  shows "prefix b b'"
proof (cases "length (group (fieldsOf q)) > 0")
  case True
  with h have "appendEach (\<lambda>f b. appendTo b (appendFragment R fmter q f)) (\<lambda>_. '', '') 0
          (group (fieldsOf q)) (b @ '' GROUP BY '') = Inr b'"
    by (simp add: appendGroup_def)
  then have "prefix (b @ '' GROUP BY '') b'"
    by (rule appendEach_prefix [rotated]) (auto simp: appendTo_Inr)
  then show ?thesis by (rule append_prefixD)
next
  case False
  with h show ?thesis by (simp add: appendGroup_def)
qed

lemma appendHaving_prefix:
  assumes h: "appendHaving R fmter q b = Inr b'"
  shows "prefix b b'"
proof (cases "length (having (fieldsOf q)) > 0")
  case True
  with h have "appendEach
          (\<lambda>f b. ebind (appendTo (b @ ''('') (appendFragment R fmter q f)) (\<lambda>b. Inr (b @ '')'')))
          (\<lambda>_. '' AND '') 0 (having (fieldsOf q)) (b @ '' HAVING '') = Inr b'"
    by (simp add: appendHaving_def)
  then have "prefix (b @ '' HAVING '') b'"
    by (rule appendEach_prefix [rotated]) (auto simp: ebind_Inr appendTo_Inr)
  then show ?thesis by (rule append_prefixD)
next
  case False
  with h show ?thesis by (simp add: appendHaving_def)
qed

lemma appendOrderLimitFor_prefix:
  "appendOrderLimitFor R fmter q b = Inr b' \<Longrightarrow> prefix b b'"
  by (auto simp: appendOrderLimitFor_def ebind_Inr appendTo_Inr split: if_splits)

lemma appendTables_prefix: "appendTables R fmter q b = Inr b' \<Longrightarrow> prefix b b'"
  by (auto simp: appendTables_def appendTo_Inr)

lemma fromClauses_prefix:
  assumes h: "fromClauses R fmter q b count = Inr b'"
  shows "prefix b b'"
proof -
  from h obtain b1 b2 b3 b4 b5 b6 b7 where
    1: "(if hasTables R q then appendTables R fmter q b else Inr b) = Inr b1" and
    2: "appendTo b1 (appendIndexHints R fmter q) = Inr b2" and
    3: "appendInlineJoins R fmter q b2 = Inr b3" and
    4: "appendJoins R fmter q b3 = Inr b4" and
    5: "appendTo b4 (appendWhere R fmter q) = Inr b5" and
    6: "appendGroup R fmter q b5 = Inr b6" and
    7: "appendHaving R fmter q b6 = Inr b7" and
    8: "(if \<not> count then appendOrderLimitFor R fmter q b7 else Inr b7) = Inr b'"
    unfolding fromClauses_def ebind_Inr by blast
  have "prefix b b1" using 1 by (auto dest: appendTables_prefix split: if_splits)
  also have "prefix b1 b2" using 2 by (auto simp: appendTo_Inr)
  also have "prefix b2 b3" using 3 by (rule appendInlineJoins_prefix)
  also have "prefix b3 b4" using 4 by (rule appendJoins_prefix)
  also have "prefix b4 b5" using 5 by (auto simp: appendTo_Inr)
  also have "prefix b5 b6" using 6 by (rule appendGroup_prefix)
  also have "prefix b6 b7" using 7 by (rule appendHaving_prefix)
  also have "prefix b7 b'" using 8 by (auto dest: appendOrderLimitFor_prefix split: if_splits)
  finally show ?thesis .
qed

lemma appendDistinct_prefix:
  assumes h: "appendDistinct R fmter q b = Inr b'"
  shows "prefix b b'"
proof (cases "length (elems (distinctOn (fieldsOf q))) > 0")
  case True
  with h obtain b1 where
    1: "appendEach (\<lambda>app b. appendTo b (appendFragment R fmter q app)) (\<lambda>_. '', '') 0
                 (elems (distinctOn (fieldsOf q))) (b @ ''DISTINCT ON ('') = Inr b1"
    and 2: "b' = b1 @ '') ''"
    by (auto simp: appendDistinct_def ebind_Inr)
  from 1 have "prefix (b @ ''DISTINCT ON ('') b1"
    by (rule appendEach_prefix [rotated]) (auto simp: appendTo_Inr)
  then have "prefix b b1" by (rule append_prefixD)
  then show ?thesis unfolding 2 by (rule prefix_prefix)
next
  case False
  with h show ?thesis by (auto simp: appendDistinct_def split: if_splits)
qed

lemma selectList_prefix:
  assumes h: "selectList R fmter q b count cte = Inr b'"
  shows "prefix b b'"
proof -
  from h obtain b1 where
    1: "appendDistinct R fmter q (b @ ''SELECT '') = Inr b1" and
    2: "(if count \<and> \<not> cte then Inr (b1 @ ''count(*)'')
             else appendColumns R fmter q
                    (if limit (fieldsOf q) > 0 \<and> length (order (fieldsOf q)) = 0
                         \<and> fmtDialect fmter = MSSQL
                     then b1 @ ''0 AS _temp_sort, '' else b1)) = Inr b'"
    by (auto simp: selectList_def ebind_Inr)
  have p1: "prefix (b @ ''SELECT '') b1" using 1 by (rule appendDistinct_prefix)
  then have pb: "prefix b b1" by (rule append_prefixD)
  have l1: "length b + 7 \<le> length b1" using prefix_length_le [OF p1] by simp
  show ?thesis
  proof (cases "count \<and> \<not> cte")
    case True
    with 2 have "b' = b1 @ ''count(*)''" by auto
    then show ?thesis using pb by (simp add: prefix_prefix)
  next
    case False
    define b2 where "b2 = (if limit (fieldsOf q) > 0 \<and> length (order (fieldsOf q)) = 0
                         \<and> fmtDialect fmter = MSSQL
                     then b1 @ ''0 AS _temp_sort, '' else b1)"
    from False 2 have c: "appendColumns R fmter q b2 = Inr b'" by (auto simp: b2_def)
    have "prefix b1 b2" by (simp add: b2_def)
    with pb have p2: "prefix b b2" by (rule prefix_order.trans)
    have "length b1 \<le> length b2" by (simp add: b2_def)
    with l1 have l2: "length b + 2 \<le> length b2" by simp
    show ?thesis using c p2 l2 by (rule appendColumns_prefix)
  qed
qed

lemma selectClauses_prefix:
  "selectClauses R fmter q b count cte = Inr b' \<Longrightarrow> prefix b b'"
  by (auto simp: selectClauses_def ebind_Inr
      dest!: selectList_prefix fromClauses_prefix dest: prefix_order.trans)

lemma selectHead_prefix:
  assumes h: "selectHead R fmter q b count = (Inr b', q')"
  shows "prefix (if cteCount q count then b @ ''WITH _count_wrapper AS ('' else b) b'"
proof -
  define b0 where "b0 = (if cteCount q count then b @ ''WITH _count_wrapper AS ('' else b)"
  define b1 where "b1 = (if length (union q) > 0 then b0 @ ''('' else b0)"
  from h obtain w q1 where
    w: "appendWith R fmter q = Inr w" and
    c: "selectClauses R fmter q1 (b1 @ w) count (cteCount q count) = Inr b'"
    by (auto simp: selectHead_def Let_def b0_def b1_def appendTo_Inr
        split: option.splits sum.splits if_splits)
  have "prefix b0 b1" by (simp add: b1_def)
  also have "prefix b1 (b1 @ w)" by simp
  also have "prefix (b1 @ w) b'" using c by (rule selectClauses_prefix)
  finally show ?thesis by (simp add: b0_def)
qed

lemma appendQuery_shape_aux:
  shows "appendQuery R fmter q b count = (Inr out, q') \<Longrightarrow>
         \<exists>body. out = (if cteCount q count
                        then b @ ''WITH _count_wrapper AS ('' @ body
                               @ '') SELECT count(*) FROM _count_wrapper''
                        else b @ body)"
    and "appendUnions R fmter us b = (Inr out, us') \<Longrightarrow> prefix b out"
proof (induction R fmter q b count and R fmter us b arbitrary: out q' and out us'
    rule: appendQuery_appendUnions.induct)
  case (1 R fmter f us b count)
  define q where "q = SelectQuery f us"
  define b0 where "b0 = (if cteCount q count then b @ ''WITH _count_wrapper AS ('' else b)"
  from "1.prems" obtain b1 q1 where
    hd: "selectHead R fmter q b count = (Inr b1, q1)"
    by (auto simp: q_def split: prod.splits sum.splits)
  have p1: "prefix b0 b1" using selectHead_prefix [OF hd] by (simp add: b0_def)
  have "\<exists>b2. prefix b1 b2 \<and> out = closeCount q count b2"
  proof (cases "length us > 0")
    case True
    with "1.prems" hd obtain b2 us2 where
      u: "appendUnions R fmter us (b1 @ '')'') = (Inr b2, us2)" and o: "out = closeCount q count b2"
      by (auto simp: q_def split: prod.splits sum.splits)
    have "prefix (b1 @ '')'') b2"
      using "1.IH" [OF hd [unfolded q_def, symmetric] refl True u] .
    then have "prefix b1 b2" by (rule append_prefixD)
    with o show ?thesis by blast
  next
    case False
    with "1.prems" hd have "out = closeCount q count b1" by (auto simp: q_def)
    then show ?thesis by blast
  qed
  then obtain b2 where p2: "prefix b1 b2" and o: "out = closeCount q count b2" by blast
  have "prefix b0 b2" using p1 p2 by (rule prefix_order.trans)
  then obtain body where "b2 = b0 @ body" by (auto simp: prefix_def)
  then show ?case
    unfolding q_def [symmetric] by (auto simp: o closeCount_def b0_def)
next
  case (2 R fmter b)
  then show ?case by simp
next
  case (3 R fmter expr u us b)
  from "3.prems" obtain b1 u1 us1 where
    a: "appendQuery R fmter u (b @ expr @ ''('' @ appendComment R (comment (fieldsOf u))) False = (Inr b1, u1)"
    and r: "appendUnions R fmter us (b1 @ '')'') = (Inr out, us1)"
    by (auto split: prod.splits sum.splits)
  have "\<not> cteCount u False" by (simp add: cteCount_def)
  with "3.IH"(1) [OF a] obtain body where
    "b1 = (b @ expr @ ''('' @ appendComment R (comment (fieldsOf u))) @ body" by auto
  then have "prefix b b1" by simp
  moreover have "prefix (b1 @ '')'') out"
    using "3.IH"(2) [OF a [symmetric] refl r] .
  then have "prefix b1 out" by (rule append_prefixD)
  ultimately show ?case by (rule prefix_order.trans)
qed

section \<open>Theorems: what the apply functions of relations keep\<close>

lemma fieldsOf_modify [simp]: "fieldsOf (modify g q) = g (fieldsOf q)"
  by (simp add: modify_def)

lemma union_modify [simp]: "union (modify g q) = union q"
  by (simp add: modify_def)

lemma untouched_addWhere: "untouched (fieldsOf (addWhere w q)) = untouched (fieldsOf q)"
  by (simp add: addWhere_def untouched_def)

lemma untouched_addColumn: "untouched (fieldsOf (addColumn c q)) = untouched (fieldsOf q)"
  by (simp add: addColumn_def untouched_def)

lemma union_addWhere: "union (addWhere w q) = union q"
  by (simp add: addWhere_def)

lemma union_addColumn: "union (addColumn c q) = union q"
  by (simp add: addColumn_def)

lemma table_addWhere: "table (fieldsOf (addWhere w q)) = table (fieldsOf q)"
  by (simp add: addWhere_def)

lemma table_addColumn: "table (fieldsOf (addColumn c q)) = table (fieldsOf q)"
  by (simp add: addColumn_def)

lemma tableModel_addWhere: "tableModel (fieldsOf (addWhere w q)) = tableModel (fieldsOf q)"
  by (simp add: addWhere_def)

lemma tableModel_addColumn: "tableModel (fieldsOf (addColumn c q)) = tableModel (fieldsOf q)"
  by (simp add: addColumn_def)

lemma keeps_refl: "keeps q q"
  by (simp add: keeps_def)

lemma keeps_trans: "keeps q q1 \<Longrightarrow> keeps q1 q2 \<Longrightarrow> keeps q q2"
  by (simp add: keeps_def)

lemma keeps_addWhere: "keeps q (addWhere w q)"
  by (simp add: keeps_def untouched_addWhere union_addWhere table_addWhere tableModel_addWhere)

lemma keeps_addColumn: "keeps q (addColumn c q)"
  by (simp add: keeps_def untouched_addColumn union_addColumn table_addColumn tableModel_addColumn)

lemma keeps_foldl:
  assumes "\<And>q x. keeps q (g q x)"
  shows "keeps q (foldl g q xs)"
proof (induction xs arbitrary: q)
  case Nil
  show ?case by (simp add: keeps_refl)
next
  case (Cons x xs)
  have "keeps q (g q x)" by (rule assms)
  moreover have "keeps (g q x) (foldl g (g q x) xs)" by (rule Cons.IH)
  ultimately show ?case by (simp add: keeps_trans)
qed

lemma keeps_runCall: "keeps q (runCall c q)"
  by (cases c) (auto simp: Column_def ColumnExpr_def Where_def WhereOr_def
      intro: keeps_addWhere keeps_addColumn keeps_foldl)

lemma keeps_runCalls: "keeps q (runCalls calls q)"
  unfolding runCalls_def by (rule keeps_foldl) (rule keeps_runCall)

lemma keeps_apply1: "keeps q (apply1 j q)"
  unfolding apply1_def by (rule keeps_foldl) (rule keeps_addWhere)

lemma keeps_callApply: "keeps q (callApply ap j q)"
  by (auto simp: callApply_def Let_def split: option.splits
      intro: keeps_refl keeps_apply1 keeps_runCalls keeps_trans [OF keeps_apply1 keeps_runCalls])

lemma applyTo_keeps:
  assumes "applyTo j q = (j', q')"
  shows "untouched (fieldsOf q') = untouched (fieldsOf q) \<and> union q' = union q
     \<and> table (fieldsOf q') = table (fieldsOf q) \<and> columns (fieldsOf q') = columns (fieldsOf q)
     \<and> tableModel (fieldsOf q') = tableModel (fieldsOf q)"
proof (cases "jApply j")
  case None
  with assms show ?thesis by (simp add: applyTo_def)
next
  case (Some ap)
  define q0 where "q0 = modify (\<lambda>f. f\<lparr>table := Some (jTable j), columns := None\<rparr>) q"
  define q1 where "q1 = callApply ap j q0"
  have k: "keeps q0 q1" unfolding q1_def by (rule keeps_callApply)
  have q': "q' = modify (\<lambda>f. f\<lparr>table := table (fieldsOf q), columns := columns (fieldsOf q)\<rparr>) q1"
    using assms Some by (simp add: applyTo_def Let_def q0_def q1_def)
  have u0: "untouched (fieldsOf q0) = untouched (fieldsOf q)"
    by (simp add: q0_def untouched_def)
  have "untouched (fieldsOf q') = untouched (fieldsOf q1)"
    by (simp add: q' untouched_def)
  with k u0 have 1: "untouched (fieldsOf q') = untouched (fieldsOf q)" by (simp add: keeps_def)
  have 2: "union q' = union q" using k by (simp add: q' keeps_def q0_def)
  have 3: "tableModel (fieldsOf q') = tableModel (fieldsOf q)"
    using k by (simp add: q' keeps_def q0_def)
  show ?thesis using 1 2 3 by (simp add: q')
qed

section \<open>Theorems: the count statement\<close>

lemma applyInlineRelJoins_frame:
  assumes "applyInlineRelJoins q = Inr q1"
  shows "untouched (fieldsOf q1) = untouched (fieldsOf q) \<and> union q1 = union q
     \<and> table (fieldsOf q1) = table (fieldsOf q) \<and> columns (fieldsOf q1) = columns (fieldsOf q)"
proof -
  let ?P = "\<lambda>st. untouched (fieldsOf st) = untouched (fieldsOf q) \<and> union st = union q
     \<and> table (fieldsOf st) = table (fieldsOf q) \<and> columns (fieldsOf st) = columns (fieldsOf q)
     \<and> tableModel (fieldsOf st) = tableModel (fieldsOf q)"
  from assms obtain js q' where
    walk: "forEachInlineRelJoin (\<lambda>j q. Inr (applyTo j q)) q q = Inr (js, q')" and
    q1: "q1 = modify (\<lambda>f. f\<lparr>tableModel :=
                 (case tableModel f of None \<Rightarrow> None | Some tm \<Rightarrow> Some (tm\<lparr>tmJoins := js\<rparr>))\<rparr>) q'"
    by (auto simp: applyInlineRelJoins_def split: sum.splits prod.splits)
  have "?P q'"
  proof (rule forEachInlineRelJoin_invariant [where P = ?P, OF _ _ walk])
    show "?P q" by simp
  next
    fix j st j' st'
    assume a: "?P st" and s: "Inr (applyTo j st) = Inr (j', st')"
    from s have "applyTo j st = (j', st')" by simp
    from applyTo_keeps [OF this] a show "?P st'" by simp
  qed
  then show ?thesis by (simp add: q1 untouched_def)
qed

lemma distinctOn_untouched: "distinctOn (untouched f) = distinctOn f"
  by (simp add: untouched_def)

lemma applyInlineRelJoins_distinctOn:
  assumes "applyInlineRelJoins q = Inr q1"
  shows "distinctOn (fieldsOf q1) = distinctOn (fieldsOf q)"
proof -
  have "untouched (fieldsOf q1) = untouched (fieldsOf q)"
    using applyInlineRelJoins_frame [OF assms] by simp
  then have "distinctOn (untouched (fieldsOf q1)) = distinctOn (untouched (fieldsOf q))" by simp
  then show ?thesis by (simp only: distinctOn_untouched)
qed

lemma appendQuery_via_head:
  assumes "appendQuery R fmter q b count = (Inr out, q')"
  shows "\<exists>b1 q1 b2. selectHead R fmter q b count = (Inr b1, q1) \<and> prefix b1 b2
           \<and> out = closeCount q count b2"
proof -
  obtain f us where q: "q = SelectQuery f us" by (cases q)
  from assms obtain b1 q1 where
    hd: "selectHead R fmter q b count = (Inr b1, q1)"
    by (auto simp: q split: prod.splits sum.splits)
  show ?thesis
  proof (cases "length us > 0")
    case True
    with assms hd obtain b2 us2 where
      u: "appendUnions R fmter us (b1 @ '')'') = (Inr b2, us2)" and o: "out = closeCount q count b2"
      by (auto simp: q split: prod.splits sum.splits)
    have "prefix (b1 @ '')'') b2" using u by (rule appendQuery_shape_aux(2))
    then have "prefix b1 b2" by (rule append_prefixD)
    with hd o show ?thesis by blast
  next
    case False
    with assms hd have "out = closeCount q count b1" by (auto simp: q)
    with hd show ?thesis by blast
  qed
qed

lemma selectHead_count_plain:
  assumes n: "\<not> cteCount q True" and h: "selectHead R fmter q b True = (Inr b1, q1)"
  shows "\<exists>w rest. appendWith R fmter q = Inr w
           \<and> b1 = b @ (if length (union q) > 0 then ''('' else []) @ w @ ''SELECT count(*)'' @ rest"
proof -
  define b0 where "b0 = b @ (if length (union q) > 0 then ''('' else [])"
  from h n obtain w where
    w: "appendWith R fmter q = Inr w" and
    a: "applyInlineRelJoins q = Inr q1" and
    c: "selectClauses R fmter q1 (b0 @ w) True False = Inr b1"
    by (auto simp: selectHead_def Let_def b0_def appendTo_Inr
        split: option.splits sum.splits if_splits)
  from c obtain s1 where
    l: "selectList R fmter q1 (b0 @ w) True False = Inr s1" and
    f: "fromClauses R fmter q1 s1 True = Inr b1"
    by (auto simp: selectClauses_def ebind_Inr)
  have "distinctOn (fieldsOf q1) = distinctOn (fieldsOf q)"
    using a by (rule applyInlineRelJoins_distinctOn)
  moreover have "distinctOn (fieldsOf q) = None" using n by (simp add: cteCount_def)
  ultimately have d: "appendDistinct R fmter q1 ((b0 @ w) @ ''SELECT '') = Inr ((b0 @ w) @ ''SELECT '')"
    by (simp add: appendDistinct_def elems_def)
  from l d have s1: "s1 = (b0 @ w) @ ''SELECT '' @ ''count(*)''"
    by (simp add: selectList_def ebind_def)
  have "prefix s1 b1" using f by (rule fromClauses_prefix)
  then obtain rest where "b1 = s1 @ rest" by (auto simp: prefix_def)
  with s1 w show ?thesis by (auto simp: b0_def)
qed

lemma count_plain_shape:
  assumes n: "\<not> cteCount q True" and h: "appendQuery R fmter q b True = (Inr out, q')"
  shows "\<exists>w rest. appendWith R fmter q = Inr w
           \<and> out = b @ (if length (union q) > 0 then ''('' else []) @ w @ ''SELECT count(*)'' @ rest"
proof -
  from appendQuery_via_head [OF h] obtain b1 q1 b2 where
    hd: "selectHead R fmter q b True = (Inr b1, q1)" and p: "prefix b1 b2"
    and o: "out = closeCount q True b2" by blast
  from selectHead_count_plain [OF n hd] obtain w rest where
    w: "appendWith R fmter q = Inr w" and
    b1: "b1 = b @ (if length (union q) > 0 then ''('' else []) @ w @ ''SELECT count(*)'' @ rest"
    by blast
  from p obtain t where "b2 = b1 @ t" by (auto simp: prefix_def)
  with b1 o n w show ?thesis by (auto simp: closeCount_def)
qed

text \<open>
  C3, as the code has it. A count statement that renders is wrapped in
  \<open>WITH _count_wrapper AS (...) SELECT count(*) FROM _count_wrapper\<close> exactly when the query
  has a GROUP BY list or its \<open>distinctOn\<close> slice is not \<open>nil\<close>; otherwise its WITH clause is followed
  directly by \<open>SELECT count(*)\<close>. Both \<open>Distinct\<close> and \<open>DistinctOn\<close> leave the slice non-nil, so a
  plain DISTINCT is wrapped like a DISTINCT ON.
\<close>

theorem count_wrapper_when_group_or_distinct:
  assumes "countQuery_AppendQuery R fmter q b = (Inr out, q')"
  shows "(length (group (fieldsOf q)) > 0 \<or> distinctOn (fieldsOf q) \<noteq> None \<longrightarrow>
            (\<exists>body. out = b @ ''WITH _count_wrapper AS ('' @ body
                           @ '') SELECT count(*) FROM _count_wrapper''))
       \<and> (\<not> (length (group (fieldsOf q)) > 0 \<or> distinctOn (fieldsOf q) \<noteq> None) \<longrightarrow>
            (\<exists>w rest. appendWith R fmter q = Inr w
               \<and> out = b @ (if length (union q) > 0 then ''('' else []) @ w
                          @ ''SELECT count(*)'' @ rest))
       \<and> distinctOn (fieldsOf (Distinct q)) \<noteq> None
       \<and> distinctOn (fieldsOf (DistinctOn query args q)) \<noteq> None"
proof -
  from assms have e: "err (fieldsOf q) = None" and
    h: "appendQuery R fmter q b True = (Inr out, q')"
    by (auto simp: countQuery_AppendQuery_def split: option.splits)
  have c: "cteCount q True \<longleftrightarrow> length (group (fieldsOf q)) > 0 \<or> distinctOn (fieldsOf q) \<noteq> None"
    by (simp add: cteCount_def)
  have 1: "cteCount q True \<Longrightarrow> \<exists>body. out = b @ ''WITH _count_wrapper AS ('' @ body
                           @ '') SELECT count(*) FROM _count_wrapper''"
    using appendQuery_shape_aux(1) [OF h] by simp
  have 2: "\<not> cteCount q True \<Longrightarrow> \<exists>w rest. appendWith R fmter q = Inr w
               \<and> out = b @ (if length (union q) > 0 then ''('' else []) @ w
                          @ ''SELECT count(*)'' @ rest"
    using count_plain_shape [OF _ h] by simp
  have 3: "distinctOn (fieldsOf (Distinct q)) \<noteq> None" by (simp add: Distinct_def)
  have 4: "distinctOn (fieldsOf (DistinctOn query args q)) \<noteq> None" by (simp add: DistinctOn_def)
  show ?thesis using 1 2 3 4 unfolding c by blast
qed

section \<open>Theorems: Exists\<close>










section \<open>Evaluating the examples\<close>

lemmas render_eval =
  AppendQuery_def countQuery_AppendQuery_def selectExistsQuery_AppendQuery_def
  whereExistsQuery_AppendQuery_def selectHead_def cteCount_def closeCount_def
  applyInlineRelJoins_def forEachInlineRelJoin_def applyTo_def callApply_def apply1_def
  runCalls_def selectClauses_def selectList_def fromClauses_def appendDistinct_def
  appendColumns_def appendOwnColumns_def appendColumn_def inlineRelColumnsStep_def
  appendInlineRelColumns_def appendTables_def appendInlineJoins_def appendJoins_def
  joinQuery_AppendQuery_def appendGroup_def appendHaving_def appendOrderLimitFor_def
  TrimSuffix_def suffix_to_prefix ebind_def appendTo_def elems_def IsZero_def modify_def

lemmas builder_eval =
  NewSelectQuery_def zeroQuery_def setErr_def setConn_def Conn_def addWhere_def addColumn_def
  Distinct_def DistinctOn_def Column_def ColumnExpr_def Where_def WhereOr_def Group_def
  GroupExpr_def Having_def Limit_def Offset_def joinOn_def JoinOn_def Join_def Relation_def
  applyToRelation_def tableModel_join_def findJoin_def SafeQuery_def SafeQueryWithSep_def
  UnsafeIdent_def argsOf_def cloneFields_def cloneArgs_def cloneHints_def

lemmas example_eval =
  plainRenderer_def pgFormatter_def plainCollab_def rowsAdapter_def plainDB_def world0_def
  usersTable_def profilesTable_def usersModel_def usersQuery_def

section \<open>Theorems: the statements of a scan\<close>

lemma selectJoins_issued_aux:
  shows "selectJoinsStep A c j W = Done (e, W') \<Longrightarrow>
         \<exists>fs. issued W' = issued W @ fs \<and> (\<forall>x\<in>set fs. isFollowUp (snd x))"
    and "selectJoins A c js W = Done (e, W') \<Longrightarrow>
         \<exists>fs. issued W' = issued W @ fs \<and> (\<forall>x\<in>set fs. isFollowUp (snd x))"
proof (induction A c j W and A c js W arbitrary: e W' and e W'
    rule: selectJoinsStep_selectJoins.induct)
  case (1 A c r n t a cs ad sub W)
  show ?case
  proof (cases "relType r")
    case InvalidRelation
    with "1.prems" show ?thesis by simp
  next
    case HasOneRelation
    with "1.prems" "1.IH"(1) show ?thesis by simp
  next
    case BelongsToRelation
    with "1.prems" "1.IH"(2) show ?thesis by simp
  next
    case HasManyRelation
    with "1.prems" show ?thesis by (auto simp: issue_def)
  next
    case ManyToManyRelation
    with "1.prems" show ?thesis by (auto simp: issue_def)
  qed
next
  case (2 A c W)
  then show ?case by simp
next
  case (3 A c j js W)
  show ?case
  proof (cases "selectJoinsStep A c j W")
    case Panic
    with "3.prems" show ?thesis by simp
  next
    case (Done r)
    obtain e1 W1 where r: "r = (e1, W1)" by (cases r)
    from "3.IH"(1) [OF Done [unfolded r]] obtain fs1 where
      1: "issued W1 = issued W @ fs1" and f1: "\<forall>x\<in>set fs1. isFollowUp (snd x)" by blast
    show ?thesis
    proof (cases e1)
      case (Some err1)
      with "3.prems" Done r have "W' = W1" by simp
      with 1 f1 show ?thesis by blast
    next
      case None
      with "3.prems" Done r have s: "selectJoins A c js W1 = Done (e, W')" by simp
      from "3.IH"(2) [OF Done [unfolded r] refl None s] obtain fs2 where
        2: "issued W' = issued W1 @ fs2" and f2: "\<forall>x\<in>set fs2. isFollowUp (snd x)" by blast
      have "issued W' = issued W @ (fs1 @ fs2)" using 1 2 by simp
      moreover have "\<forall>x\<in>set (fs1 @ fs2). isFollowUp (snd x)" using f1 f2 by auto
      ultimately show ?thesis by blast
    qed
  qed
qed

lemma resolveJoins_issued:
  assumes "resolveJoins A q m res W = Done (e, W')"
  shows "\<exists>fs. issued W' = issued W @ fs \<and> (\<forall>x\<in>set fs. isFollowUp (snd x))
          \<and> (fs \<noteq> [] \<longrightarrow> fst (RowsAffected res) > 0)"
proof (cases "fst (RowsAffected res) > 0")
  case False
  with assms have "W' = W" by (simp add: resolveJoins_def)
  then show ?thesis by simp
next
  case pos: True
  show ?thesis
  proof (cases "modelJoins q m")
    case None
    with assms pos have "W' = W" by (simp add: resolveJoins_def)
    then show ?thesis by simp
  next
    case (Some js)
    with assms pos have "selectJoins A (conn (fieldsOf q)) js W = Done (e, W')"
      by (simp add: resolveJoins_def)
    from selectJoins_issued_aux(2) [OF this] pos show ?thesis by blast
  qed
qed

lemma scanResult_cases:
  assumes h: "scanResult C A R db ctx q dest W = Done (r, q', W')"
  shows "W' = W
       \<or> (\<exists>query m e. dbScan A (issued W) query m = Inl e
             \<and> W' = issue (conn (fieldsOf q')) (ScanStmt query) W)
       \<or> (\<exists>query m res e q2. dbScan A (issued W) query m = Inr res
             \<and> resolveJoins A q2 m res (issue (conn (fieldsOf q2)) (ScanStmt query) W) = Done (e, W'))"
  using h unfolding scanResult_def scan_def
  by (auto split: option.splits sum.splits prod.splits if_splits outcome.splits) metis

lemma scanResult_issued:
  assumes h: "scanResult C A R db ctx q dest W = Done (r, q', W')"
  shows "issued W' = issued W
       \<or> (\<exists>c query m fs. issued W' = issued W @ (c, ScanStmt query) # fs
             \<and> (\<forall>x\<in>set fs. isFollowUp (snd x))
             \<and> (fs \<noteq> [] \<longrightarrow>
                  (\<exists>res. dbScan A (issued W) query m = Inr res \<and> fst (RowsAffected res) > 0)))"
proof -
  from scanResult_cases [OF h] consider
    (none) "W' = W"
    | (failed) query m e where "dbScan A (issued W) query m = Inl e"
        "W' = issue (conn (fieldsOf q')) (ScanStmt query) W"
    | (scanned) query m res e q2 where "dbScan A (issued W) query m = Inr res"
        "resolveJoins A q2 m res (issue (conn (fieldsOf q2)) (ScanStmt query) W) = Done (e, W')"
    by blast
  then show ?thesis
  proof cases
    case none
    then show ?thesis by simp
  next
    case failed
    then have "issued W' = issued W @ (conn (fieldsOf q'), ScanStmt query) # []"
      by (simp add: issue_def)
    then have "\<exists>c query m fs. issued W' = issued W @ (c, ScanStmt query) # fs
             \<and> (\<forall>x\<in>set fs. isFollowUp (snd x))
             \<and> (fs \<noteq> [] \<longrightarrow>
                  (\<exists>res. dbScan A (issued W) query m = Inr res \<and> fst (RowsAffected res) > 0))"
      by (intro exI [of _ "conn (fieldsOf q')"] exI [of _ query] exI [of _ "[]"]) simp
    then show ?thesis by (rule disjI2)
  next
    case scanned
    from resolveJoins_issued [OF scanned(2)] obtain fs where
      i: "issued W' = issued (issue (conn (fieldsOf q2)) (ScanStmt query) W) @ fs" and
      f: "\<forall>x\<in>set fs. isFollowUp (snd x)" and p: "fs \<noteq> [] \<longrightarrow> fst (RowsAffected res) > 0"
      by blast
    from i have "issued W' = issued W @ (conn (fieldsOf q2), ScanStmt query) # fs"
      by (simp add: issue_def)
    with f p scanned(1) show ?thesis by blast
  qed
qed

section \<open>Theorems: ScanAndCount and the follow-up statements\<close>












text \<open>
  C7. Whatever \<open>scanResult\<close> issues is the primary scan statement followed by follow-up
  statements of to-many and many-to-many relations only, and follow-up statements are there only
  when the scan succeeded with an affected-row count greater than zero. With a count of zero (or
  less) the resolution of the relations issues nothing and returns no error.
\<close>

theorem follow_ups_need_rows:
  "(scanResult C A R db ctx q dest W = Done (r, q', W') \<longrightarrow>
      issued W' = issued W
      \<or> (\<exists>c query m fs. issued W' = issued W @ (c, ScanStmt query) # fs
            \<and> (\<forall>x\<in>set fs. isFollowUp (snd x))
            \<and> (fs \<noteq> [] \<longrightarrow>
                 (\<exists>res. dbScan A (issued W) query m = Inr res \<and> fst (RowsAffected res) > 0))))
   \<and> (fst (RowsAffected res) \<le> 0 \<longrightarrow> resolveJoins A qa ma res Wa = Done (None, Wa))"
  using scanResult_issued [of C A R db ctx q dest W r q' W']
  by (simp add: resolveJoins_def)

section \<open>Examples: Exists, Count, Scan\<close>

lemmas terminal_eval =
  Exists_def selectExists_def whereExists_def exec_def scan_def issue_def Count_def
  ScanAndCount_def scanAndCountSeq_def Scan_def scanResult_def resolveJoins_def modelJoins_def
  hasManyDest_def beforeSelectHook_def afterSelectHook_def setCommentFromContext_def
  makeQueryBytes_def hasFeature_def beforeQuery_def afterQuery_def countError_def pgFeatures_def
  Comment_def String_def

lemmas example_eval2 = example_eval zeroRowsQuery_def erredQuery_def

lemma profileQuery_eq:
  "Relation ''Profile'' [] usersQuery = Done profileQuery"
  by (simp add: profileQuery_def builder_eval example_eval modify_def)

lemma postsQuery_eq:
  "Relation ''Posts'' [] usersQuery = Done postsQuery"
  by (simp add: postsQuery_def builder_eval example_eval modify_def)




lemma distinct_count_render:
  "countQuery_AppendQuery plainRenderer pgFormatter (Distinct NewSelectQuery) []
    = (Inr ''WITH _count_wrapper AS (SELECT DISTINCT *) SELECT count(*) FROM _count_wrapper'',
       Distinct NewSelectQuery)"
  by (simp add: render_eval builder_eval example_eval)

lemma plain_count_render:
  "countQuery_AppendQuery plainRenderer pgFormatter zeroRowsQuery []
    = (Inr ''SELECT count(*) WHERE (1 = 0)'', zeroRowsQuery)"
  by (simp add: render_eval builder_eval example_eval2)

theorem count_wrapper_when_group_or_distinct_witness:
  "countQuery_AppendQuery plainRenderer pgFormatter (Distinct NewSelectQuery) []
    = (Inr ''WITH _count_wrapper AS (SELECT DISTINCT *) SELECT count(*) FROM _count_wrapper'',
       Distinct NewSelectQuery)
   \<and> (length (group (fieldsOf (Distinct NewSelectQuery))) > 0
        \<or> distinctOn (fieldsOf (Distinct NewSelectQuery)) \<noteq> None)
   \<and> (\<exists>body. ''WITH _count_wrapper AS (SELECT DISTINCT *) SELECT count(*) FROM _count_wrapper''
          = [] @ ''WITH _count_wrapper AS ('' @ body @ '') SELECT count(*) FROM _count_wrapper'')
   \<and> countQuery_AppendQuery plainRenderer pgFormatter zeroRowsQuery []
    = (Inr ''SELECT count(*) WHERE (1 = 0)'', zeroRowsQuery)
   \<and> \<not> (length (group (fieldsOf zeroRowsQuery)) > 0 \<or> distinctOn (fieldsOf zeroRowsQuery) \<noteq> None)
   \<and> (\<exists>w rest. appendWith plainRenderer pgFormatter zeroRowsQuery = Inr w
         \<and> ''SELECT count(*) WHERE (1 = 0)''
           = [] @ (if length (union zeroRowsQuery) > 0 then ''('' else []) @ w
               @ ''SELECT count(*)'' @ rest)"
proof -
  have d: "length (group (fieldsOf (Distinct NewSelectQuery))) > 0
        \<or> distinctOn (fieldsOf (Distinct NewSelectQuery)) \<noteq> None"
    by (simp add: Distinct_def)
  have z: "\<not> (length (group (fieldsOf zeroRowsQuery)) > 0 \<or> distinctOn (fieldsOf zeroRowsQuery) \<noteq> None)"
    by (simp add: builder_eval example_eval2 modify_def)
  note T1 = count_wrapper_when_group_or_distinct [OF distinct_count_render]
  note T2 = count_wrapper_when_group_or_distinct [OF plain_count_render]
  from T1 d have 1: "\<exists>body. ''WITH _count_wrapper AS (SELECT DISTINCT *) SELECT count(*) FROM _count_wrapper''
          = [] @ ''WITH _count_wrapper AS ('' @ body @ '') SELECT count(*) FROM _count_wrapper''"
    by blast
  from T2 z have 2: "\<exists>w rest. appendWith plainRenderer pgFormatter zeroRowsQuery = Inr w
         \<and> ''SELECT count(*) WHERE (1 = 0)''
           = [] @ (if length (union zeroRowsQuery) > 0 then ''('' else []) @ w
               @ ''SELECT count(*)'' @ rest"
    by blast
  show ?thesis using distinct_count_render plain_count_render d z 1 2 by blast
qed

text \<open>
  C3 as stated excludes the plain DISTINCT from the wrapper. After \<open>Distinct()\<close> the slice is empty
  but not \<open>nil\<close>, there is no GROUP BY, and the count statement is wrapped.
\<close>

theorem plain_distinct_count_counterexample:
  "distinctOn (fieldsOf (Distinct NewSelectQuery)) = Some []
   \<and> length (group (fieldsOf (Distinct NewSelectQuery))) = 0
   \<and> fst (countQuery_AppendQuery plainRenderer pgFormatter (Distinct NewSelectQuery) [])
      = Inr ''WITH _count_wrapper AS (SELECT DISTINCT *) SELECT count(*) FROM _count_wrapper''"
  by (simp add: render_eval builder_eval example_eval)

lemma posts_scan_3:
  "scanResult plainCollab (rowsAdapter 3) plainRenderer (plainDB pgFeatures) () postsQuery []
     (world0 ())
   = Done (Inr \<lparr> RowsAffected = (3, None) \<rparr>, postsQuery,
           (world0 ())\<lparr>issued := [(None, ScanStmt ''SELECT u.id''),
                                    (None, SelectManyStmt ''Posts'')]\<rparr>)"
  by (simp add: postsQuery_def render_eval builder_eval example_eval terminal_eval)

lemma posts_scan_0:
  "scanResult plainCollab (rowsAdapter 0) plainRenderer (plainDB pgFeatures) () postsQuery []
     (world0 ())
   = Done (Inr \<lparr> RowsAffected = (0, None) \<rparr>, postsQuery,
           (world0 ())\<lparr>issued := [(None, ScanStmt ''SELECT u.id'')]\<rparr>)"
  by (simp add: postsQuery_def render_eval builder_eval example_eval terminal_eval)

theorem follow_ups_need_rows_witness:
  "scanResult plainCollab (rowsAdapter 3) plainRenderer (plainDB pgFeatures) () postsQuery []
     (world0 ())
   = Done (Inr \<lparr> RowsAffected = (3, None) \<rparr>, postsQuery,
           (world0 ())\<lparr>issued := [(None, ScanStmt ''SELECT u.id''),
                                    (None, SelectManyStmt ''Posts'')]\<rparr>)
   \<and> (\<exists>c query m fs.
         [(None, ScanStmt ''SELECT u.id''), (None, SelectManyStmt ''Posts'')]
           = (c, ScanStmt query) # fs
         \<and> (\<forall>x\<in>set fs. isFollowUp (snd x))
         \<and> fs \<noteq> []
         \<and> (\<exists>res. dbScan (rowsAdapter 3) [] query m = Inr res \<and> fst (RowsAffected res) > 0))
   \<and> fst (RowsAffected \<lparr> RowsAffected = (0, None) \<rparr>) \<le> 0
   \<and> resolveJoins (rowsAdapter 0) postsQuery QueryTableModel \<lparr> RowsAffected = (0, None) \<rparr>
        (world0 ()) = Done (None, world0 ())
   \<and> scanResult plainCollab (rowsAdapter 0) plainRenderer (plainDB pgFeatures) () postsQuery []
        (world0 ())
      = Done (Inr \<lparr> RowsAffected = (0, None) \<rparr>, postsQuery,
              (world0 ())\<lparr>issued := [(None, ScanStmt ''SELECT u.id'')]\<rparr>)"
proof -
  note T = follow_ups_need_rows [where C = plainCollab and A = "rowsAdapter 3"
      and R = plainRenderer and db = "plainDB pgFeatures" and ctx = "()" and q = postsQuery
      and dest = "[]" and W = "world0 ()" and r = "Inr \<lparr> RowsAffected = (3, None) \<rparr>"
      and q' = postsQuery
      and W' = "(world0 ())\<lparr>issued := [(None, ScanStmt ''SELECT u.id''),
                                    (None, SelectManyStmt ''Posts'')]\<rparr>"
      and res = "\<lparr> RowsAffected = (0, None) \<rparr>" and qa = postsQuery
      and ma = QueryTableModel and Wa = "world0 ()"]
  have z: "fst (RowsAffected \<lparr> RowsAffected = (0, None) \<rparr>) \<le> 0" by simp
  from T z have 2: "resolveJoins (rowsAdapter 3) postsQuery QueryTableModel
      \<lparr> RowsAffected = (0, None) \<rparr> (world0 ()) = Done (None, world0 ())" by blast
  have zero: "resolveJoins (rowsAdapter 0) postsQuery QueryTableModel
      \<lparr> RowsAffected = (0, None) \<rparr> (world0 ()) = Done (None, world0 ())"
    by (simp add: resolveJoins_def)
  from T posts_scan_3 have
    "issued ((world0 ())\<lparr>issued := [(None, ScanStmt ''SELECT u.id''),
                                    (None, SelectManyStmt ''Posts'')]\<rparr>) = issued (world0 ())
     \<or> (\<exists>c query m fs.
          issued ((world0 ())\<lparr>issued := [(None, ScanStmt ''SELECT u.id''),
                                    (None, SelectManyStmt ''Posts'')]\<rparr>)
            = issued (world0 ()) @ (c, ScanStmt query) # fs
          \<and> (\<forall>x\<in>set fs. isFollowUp (snd x))
          \<and> (fs \<noteq> [] \<longrightarrow>
               (\<exists>res. dbScan (rowsAdapter 3) (issued (world0 ())) query m = Inr res
                  \<and> fst (RowsAffected res) > 0)))"
    by blast
  then have 1: "\<exists>c query m fs.
         [(None, ScanStmt ''SELECT u.id''), (None, SelectManyStmt ''Posts'')]
           = (c, ScanStmt query) # fs
         \<and> (\<forall>x\<in>set fs. isFollowUp (snd x))
         \<and> fs \<noteq> []
         \<and> (\<exists>res. dbScan (rowsAdapter 3) [] query m = Inr res \<and> fst (RowsAffected res) > 0)"
    by (auto simp: world0_def)
  show ?thesis using posts_scan_3 posts_scan_0 1 zero z by blast
qed






section \<open>Theorems: the recorded error and repeated rendering\<close>

lemma Clone_err: "err (fieldsOf (Clone q)) = None"
  by (cases q) (simp add: cloneFields_def)

lemma appendQuery_erred:
  assumes "err (fieldsOf q) = Some e"
  shows "appendQuery R fmter q b count = (Inl e, q)"
proof -
  obtain f us where q: "q = SelectQuery f us" by (cases q)
  have "selectHead R fmter q b count = (Inl e, q)"
    using assms by (simp add: selectHead_def)
  then show ?thesis unfolding q by simp
qed

lemma erred_query_terminal_calls:
  assumes e: "err (fieldsOf q) = Some e"
  shows "AppendQuery R fmter q b = (Inl e, q)"
    and "countQuery_AppendQuery R fmter q b = (Inl e, q)"
    and "selectExistsQuery_AppendQuery R fmter q b = (Inl e, q)"
    and "whereExistsQuery_AppendQuery R fmter q b = (Inl e, q)"
    and "String R fmter q = Panic"
    and "Rows C A R db ctx q W = Done (Some e, q, W)"
    and "Exec C A R db ctx q dest W = Done (Inl e, q, W)"
    and "Scan C A R db ctx q dest W = Done (Some e, q, W)"
    and "Count C A R db ctx q W = Done ((0, Some e), q, W)"
    and "Exists C A R db ctx q W = Done ((False, Some e), q, W)"
    and "setErr e' q = q"
  using e
  by (simp_all add: AppendQuery_def appendQuery_erred countQuery_AppendQuery_def
      selectExistsQuery_AppendQuery_def whereExistsQuery_AppendQuery_def String_def Rows_def
      Exec_def Scan_def scanResult_def Count_def Exists_def setErr_def)

text \<open>
  C1 at a failing input. \<open>JoinOn\<close> on a query with no join records the error
  \<open>bun: query has no joins\<close>; rendering and \<open>Count\<close> on that query return it and issue nothing. The
  clone of that query has no recorded error (as has the clone of any query): it renders
  \<open>SELECT *\<close> and its \<open>Count\<close> issues a count statement and succeeds.
\<close>

theorem clone_drops_recorded_error:
  "err (fieldsOf erredQuery) = Some (Error ''bun: query has no joins'')
   \<and> AppendQuery plainRenderer pgFormatter erredQuery []
       = (Inl (Error ''bun: query has no joins''), erredQuery)
   \<and> Count plainCollab (rowsAdapter 3) plainRenderer (plainDB pgFeatures) () erredQuery (world0 ())
       = Done ((0, Some (Error ''bun: query has no joins'')), erredQuery, world0 ())
   \<and> err (fieldsOf (Clone erredQuery)) = None
   \<and> AppendQuery plainRenderer pgFormatter (Clone erredQuery) []
       = (Inr ''SELECT *'', Clone erredQuery)
   \<and> Count plainCollab (rowsAdapter 3) plainRenderer (plainDB pgFeatures) () (Clone erredQuery)
        (world0 ())
       = Done ((3, None), Clone erredQuery,
               (world0 ())\<lparr>Queries := 1, issued := [(None, CountStmt ''SELECT count(*)'')]\<rparr>)
   \<and> err (fieldsOf (Clone q)) = None"
proof (intro conjI)
  show "err (fieldsOf (Clone q)) = None" by (rule Clone_err)
qed (simp_all add: render_eval builder_eval example_eval2 terminal_eval)

lemma profile_once:
  "String plainRenderer pgFormatter profileQuery
     = Done (''SELECT u.id, Profile.id AS Profile__ID LEFT JOIN Profile WHERE (kind = 1)'',
             renderedOnce)"
  by (simp add: renderedOnce_def profileQuery_def render_eval builder_eval example_eval
      terminal_eval)

text \<open>
  C4 at a failing input. A query on a model whose has-one relation \<open>Profile\<close> carries the
  condition \<open>kind = 1\<close>, joined with \<open>Relation("Profile")\<close>: the first \<open>String()\<close> filters by the
  condition once and leaves the condition in the filters of the query; the second \<open>String()\<close>, on
  the query as the first left it, filters by it twice.
\<close>

theorem render_twice_differs:
  "Relation ''Profile'' [] usersQuery = Done profileQuery
   \<and> String plainRenderer pgFormatter profileQuery
       = Done (''SELECT u.id, Profile.id AS Profile__ID LEFT JOIN Profile WHERE (kind = 1)'',
               renderedOnce)
   \<and> (case String plainRenderer pgFormatter renderedOnce of
         Done (s, q) \<Rightarrow> s
       | Panic \<Rightarrow> [])
       = ''SELECT u.id, Profile.id AS Profile__ID LEFT JOIN Profile WHERE (kind = 1) AND (kind = 1)''
   \<and> wheres (fieldsOf profileQuery) = []
   \<and> wheres (fieldsOf renderedOnce) = [SafeQueryWithSep ''kind = 1'' [] '' AND '']
   \<and> renderedOnce \<noteq> profileQuery"
proof -
  have 1: "Relation ''Profile'' [] usersQuery = Done profileQuery" by (rule profileQuery_eq)
  have 3: "(case String plainRenderer pgFormatter renderedOnce of
         Done (s, q) \<Rightarrow> s
       | Panic \<Rightarrow> [])
       = ''SELECT u.id, Profile.id AS Profile__ID LEFT JOIN Profile WHERE (kind = 1) AND (kind = 1)''"
    by (simp add: renderedOnce_def profileQuery_def render_eval builder_eval example_eval
        terminal_eval)
  have 4: "wheres (fieldsOf profileQuery) = []"
    by (simp add: profileQuery_def builder_eval example_eval modify_def)
  have 5: "wheres (fieldsOf renderedOnce) = [SafeQueryWithSep ''kind = 1'' [] '' AND '']"
    by (simp add: renderedOnce_def profileQuery_def render_eval builder_eval example_eval
        terminal_eval)
  have 6: "renderedOnce \<noteq> profileQuery" using 4 5 by auto
  show ?thesis using 1 profile_once 3 4 5 6 by blast
qed

end
